theory Spec2Isabelle
  imports Main "HOL-Library.Multiset"
begin

section \<open>JavaScript strings\<close>

text \<open>
  The program is TypeScript. A JavaScript string is a sequence of UTF-16 code units, and
  \<open>length\<close>, indexing, \<open>startsWith\<close>, \<open>includesStr\<close> and \<open>===\<close> all work on code units, so a
  string is modelled as the list of its code units. The Ukrainian literals of the source
  are written as their code units (Cyrillic small a is \<open>0x430\<close>), with a transliteration
  beside each.
\<close>

type_synonym jsstring = "nat list"

text \<open>
  \<open>String.prototype.trim\<close> removes the ECMAScript white space and line terminator code
  points from both ends. The Hangul filler \<open>0x3164\<close>, which the questionnaire uses as a
  marker, is a letter and is not removed.
\<close>

definition isWhiteSpace :: "nat \<Rightarrow> bool" where
  "isWhiteSpace c =
     (c = 0x9 \<or> c = 0xA \<or> c = 0xB \<or> c = 0xC \<or> c = 0xD \<or> c = 0x20 \<or> c = 0xA0
      \<or> c = 0x1680 \<or> (0x2000 \<le> c \<and> c \<le> 0x200A) \<or> c = 0x2028 \<or> c = 0x2029
      \<or> c = 0x202F \<or> c = 0x205F \<or> c = 0x3000 \<or> c = 0xFEFF)"

definition trim :: "jsstring \<Rightarrow> jsstring" where
  "trim s = rev (dropWhile isWhiteSpace (rev (dropWhile isWhiteSpace s)))"

definition startsWith :: "jsstring \<Rightarrow> jsstring \<Rightarrow> bool" where
  "startsWith s p = (take (length p) s = p)"

text \<open>\<open>s.includes(kw)\<close>: \<open>kw\<close> occurs in \<open>s\<close> as a contiguous run of code units.\<close>

fun includesStr :: "jsstring \<Rightarrow> jsstring \<Rightarrow> bool" where
  "includesStr [] kw = (kw = [])"
| "includesStr (c # s) kw = (startsWith (c # s) kw \<or> includesStr s kw)"

text \<open>\<open>Array.prototype.some\<close>.\<close>

primrec some :: "('a \<Rightarrow> bool) \<Rightarrow> 'a list \<Rightarrow> bool" where
  "some p [] = False"
| "some p (x # xs) = (p x \<or> some p xs)"

text \<open>The regular expression class \<open>\d\<close> is the ten ASCII digits.\<close>

definition isDigit :: "nat \<Rightarrow> bool" where
  "isDigit c = (0x30 \<le> c \<and> c \<le> 0x39)"

text \<open>\<open>s.replace(/[^\d]/g, '')\<close>.\<close>

definition stripNonDigits :: "jsstring \<Rightarrow> jsstring" where
  "stripNonDigits s = filter isDigit s"

text \<open>
  \<open>String.prototype.toLowerCase\<close> is a built-in of the language whose Unicode case table
  is not part of the program: every decoder takes it as its first argument, and every
  theorem below holds for any such function. For running the decoders on concrete texts,
  \<open>lowerUkr\<close> lowers the ASCII letters and the Cyrillic capitals \<open>0x400\<close> to \<open>0x42F\<close> and
  \<open>0x490\<close>, as the built-in does, and leaves every other code unit alone.
\<close>

definition lowerUnit :: "nat \<Rightarrow> nat" where
  "lowerUnit c =
     (if 0x41 \<le> c \<and> c \<le> 0x5A then c + 0x20
      else if 0x410 \<le> c \<and> c \<le> 0x42F then c + 0x20
      else if 0x400 \<le> c \<and> c \<le> 0x40F then c + 0x50
      else if c = 0x490 then 0x491
      else c)"

definition lowerUkr :: "jsstring \<Rightarrow> jsstring" where
  "lowerUkr s = map lowerUnit s"

section \<open>The SAN decoder\<close>

definition positiveKeywords :: "jsstring list" where
  "positiveKeywords =
    [
     [0x434, 0x43E, 0x431, 0x440, 0x435], \<comment> \<open>dobre\<close>
     [0x441, 0x438, 0x43B, 0x44C, 0x43D, 0x438, 0x43C], \<comment> \<open>syl'nym\<close>
     [0x430, 0x43A, 0x442, 0x438, 0x432, 0x43D, 0x438, 0x439], \<comment> \<open>aktyvnyi\<close>
     [0x440, 0x443, 0x445, 0x43B, 0x438, 0x432, 0x438, 0x439], \<comment> \<open>rukhlyvyi\<close>
     [0x432, 0x435, 0x441, 0x435, 0x43B, 0x438, 0x439], \<comment> \<open>veselyi\<close>
     [0x433, 0x430, 0x440, 0x43D, 0x438, 0x439], \<comment> \<open>harnyi\<close>
     [0x43F, 0x440, 0x430, 0x446, 0x435, 0x437, 0x434, 0x430, 0x442, 0x43D, 0x438, 0x439], \<comment> \<open>pratsezdatnyi\<close>
     [0x441, 0x43F, 0x43E, 0x432, 0x43D, 0x435, 0x43D, 0x438, 0x439, 0x20, 0x441, 0x438, 0x43B], \<comment> \<open>spovnenyi syl\<close>
     [0x448, 0x432, 0x438, 0x434, 0x43A, 0x438, 0x439], \<comment> \<open>shvydkyi\<close>
     [0x434, 0x456, 0x454, 0x432, 0x438, 0x439], \<comment> \<open>diievyi\<close>
     [0x449, 0x430, 0x441, 0x43B, 0x438, 0x432, 0x438, 0x439], \<comment> \<open>shchaslyvyi\<close>
     [0x436, 0x438, 0x442, 0x442, 0x454, 0x440, 0x430, 0x434, 0x456, 0x441, 0x43D, 0x438, 0x439], \<comment> \<open>zhyttieradisnyi\<close>
     [0x440, 0x43E, 0x437, 0x441, 0x43B, 0x430, 0x431, 0x43B, 0x435, 0x43D, 0x438, 0x439], \<comment> \<open>rozslablenyi\<close>
     [0x437, 0x434, 0x43E, 0x440, 0x43E, 0x432, 0x438, 0x439], \<comment> \<open>zdorovyi\<close>
     [0x437, 0x430, 0x445, 0x43E, 0x43F, 0x43B, 0x435, 0x43D, 0x438, 0x439], \<comment> \<open>zakhoplenyi\<close>
     [0x441, 0x445, 0x432, 0x438, 0x43B, 0x44C, 0x43E, 0x432, 0x430, 0x43D, 0x438, 0x439], \<comment> \<open>skhvyl'ovanyi\<close>
     [0x441, 0x43F, 0x43E, 0x432, 0x43D, 0x435, 0x43D, 0x438, 0x439, 0x20, 0x432, 0x456, 0x440, 0x438], \<comment> \<open>spovnenyi viry\<close>
     [0x440, 0x430, 0x434, 0x456, 0x441, 0x43D, 0x438, 0x439], \<comment> \<open>radisnyi\<close>
     [0x434, 0x43E, 0x431, 0x440, 0x435, 0x20, 0x432, 0x456, 0x434, 0x43F, 0x43E, 0x447, 0x438, 0x432], \<comment> \<open>dobre vidpochyv\<close>
     [0x441, 0x432, 0x456, 0x436, 0x438, 0x439], \<comment> \<open>svizhyi\<close>
     [0x437, 0x431, 0x443, 0x434, 0x436, 0x435, 0x43D, 0x438, 0x439], \<comment> \<open>zbudzhenyi\<close>
     [0x431, 0x430, 0x436, 0x430, 0x44E, 0x20, 0x43F, 0x440, 0x430, 0x446, 0x44E, 0x432, 0x430, 0x442, 0x438], \<comment> \<open>bazhaiu pratsiuvaty\<close>
     [0x441, 0x43F, 0x43E, 0x43A, 0x456, 0x439, 0x43D, 0x438, 0x439], \<comment> \<open>spokiinyi\<close>
     [0x43E, 0x43F, 0x442, 0x438, 0x43C, 0x456, 0x441, 0x442, 0x438, 0x447, 0x43D, 0x438, 0x439], \<comment> \<open>optymistychnyi\<close>
     [0x432, 0x438, 0x442, 0x440, 0x438, 0x432, 0x430, 0x43B, 0x438, 0x439], \<comment> \<open>vytryvalyi\<close>
     [0x431, 0x430, 0x434, 0x44C, 0x43E, 0x440, 0x438, 0x439], \<comment> \<open>bad'oryi\<close>
     [0x440, 0x43E, 0x437, 0x43C, 0x456, 0x440, 0x43A, 0x43E, 0x432, 0x443, 0x432, 0x430, 0x442, 0x438, 0x20, 0x43B, 0x435, 0x433, 0x43A, 0x43E], \<comment> \<open>rozmirkovuvaty lehko\<close>
     [0x443, 0x432, 0x430, 0x436, 0x43D, 0x438, 0x439], \<comment> \<open>uvazhnyi\<close>
     [0x441, 0x43F, 0x43E, 0x432, 0x43D, 0x435, 0x43D, 0x438, 0x439, 0x20, 0x43D, 0x430, 0x434, 0x456, 0x439], \<comment> \<open>spovnenyi nadii\<close>
     [0x437, 0x430, 0x434, 0x43E, 0x432, 0x43E, 0x43B, 0x435, 0x43D, 0x438, 0x439] \<comment> \<open>zadovolenyi\<close>
    ]"

definition negativeKeywords :: "jsstring list" where
  "negativeKeywords =
    [
     [0x43F, 0x43E, 0x433, 0x430, 0x43D, 0x435], \<comment> \<open>pohane\<close>
     [0x441, 0x43B, 0x430, 0x431, 0x43A, 0x438, 0x43C], \<comment> \<open>slabkym\<close>
     [0x43F, 0x430, 0x441, 0x438, 0x432, 0x43D, 0x438, 0x439], \<comment> \<open>pasyvnyi\<close>
     [0x43C, 0x430, 0x43B, 0x43E, 0x440, 0x443, 0x445, 0x43B, 0x438, 0x432, 0x438, 0x439], \<comment> \<open>malorukhlyvyi\<close>
     [0x441, 0x443, 0x43C, 0x43D, 0x438, 0x439], \<comment> \<open>sumnyi\<close>
     [0x43F, 0x43E, 0x433, 0x430, 0x43D, 0x438, 0x439], \<comment> \<open>pohanyi\<close>
     [0x43C, 0x430, 0x43B, 0x43E, 0x43F, 0x440, 0x430, 0x446, 0x435, 0x437, 0x434, 0x430, 0x442, 0x43D, 0x438, 0x439], \<comment> \<open>malopratsezdatnyi\<close>
     [0x437, 0x43D, 0x435, 0x441, 0x438, 0x43B, 0x435, 0x43D, 0x438, 0x439], \<comment> \<open>znesylenyi\<close>
     [0x43F, 0x43E, 0x432, 0x456, 0x43B, 0x44C, 0x43D, 0x438, 0x439], \<comment> \<open>povil'nyi\<close>
     [0x431, 0x435, 0x437, 0x434, 0x456, 0x44F, 0x43B, 0x44C, 0x43D, 0x438, 0x439], \<comment> \<open>bezdiial'nyi\<close>
     [0x43D, 0x435, 0x449, 0x430, 0x441, 0x43D, 0x438, 0x439], \<comment> \<open>neshchasnyi\<close>
     [0x43F, 0x43E, 0x445, 0x43C, 0x443, 0x440, 0x438, 0x439], \<comment> \<open>pokhmuryi\<close>
     [0x43D, 0x430, 0x43F, 0x440, 0x443, 0x436, 0x435, 0x43D, 0x438, 0x439], \<comment> \<open>napruzhenyi\<close>
     [0x445, 0x432, 0x43E, 0x440, 0x438, 0x439], \<comment> \<open>khvoryi\<close>
     [0x431, 0x435, 0x437, 0x456, 0x43D, 0x456, 0x446, 0x456, 0x430, 0x442, 0x438, 0x432, 0x43D, 0x438, 0x439], \<comment> \<open>bezinitsiatyvnyi\<close>
     [0x431, 0x430, 0x439, 0x434, 0x443, 0x436, 0x438, 0x439], \<comment> \<open>baiduzhyi\<close>
     [0x437, 0x43D, 0x435, 0x432, 0x456, 0x440, 0x435, 0x43D, 0x438, 0x439], \<comment> \<open>znevirenyi\<close>
     [0x441, 0x442, 0x43E, 0x43C, 0x43B, 0x435, 0x43D, 0x438, 0x439], \<comment> \<open>stomlenyi\<close>
     [0x432, 0x438, 0x441, 0x43D, 0x430, 0x436, 0x435, 0x43D, 0x438, 0x439], \<comment> \<open>vysnazhenyi\<close>
     [0x441, 0x43E, 0x43D, 0x43B, 0x438, 0x432, 0x438, 0x439], \<comment> \<open>sonlyvyi\<close>
     [0x431, 0x430, 0x436, 0x430, 0x44E, 0x20, 0x432, 0x456, 0x434, 0x43F, 0x43E, 0x447, 0x438, 0x442, 0x438], \<comment> \<open>bazhaiu vidpochyty\<close>
     [0x441, 0x442, 0x443, 0x440, 0x431, 0x43E, 0x432, 0x430, 0x43D, 0x438, 0x439], \<comment> \<open>sturbovanyi\<close>
     [0x43F, 0x435, 0x441, 0x438, 0x43C, 0x456, 0x441, 0x442, 0x438, 0x447, 0x43D, 0x438, 0x439], \<comment> \<open>pesymistychnyi\<close>
     [0x43C, 0x430, 0x43B, 0x43E, 0x432, 0x438, 0x442, 0x440, 0x438, 0x432, 0x430, 0x43B, 0x438, 0x439], \<comment> \<open>malovytryvalyi\<close>
     [0x43C, 0x43B, 0x44F, 0x432, 0x438, 0x439], \<comment> \<open>mliavyi\<close>
     [0x440, 0x43E, 0x437, 0x43C, 0x456, 0x440, 0x43A, 0x43E, 0x432, 0x443, 0x432, 0x430, 0x442, 0x438, 0x20, 0x432, 0x430, 0x436, 0x43A, 0x43E], \<comment> \<open>rozmirkovuvaty vazhko\<close>
     [0x43D, 0x435, 0x443, 0x432, 0x430, 0x436, 0x43D, 0x438, 0x439], \<comment> \<open>neuvazhnyi\<close>
     [0x440, 0x43E, 0x437, 0x447, 0x430, 0x440, 0x43E, 0x432, 0x430, 0x43D, 0x438, 0x439], \<comment> \<open>rozcharovanyi\<close>
     [0x43D, 0x435, 0x437, 0x430, 0x434, 0x43E, 0x432, 0x43E, 0x43B, 0x435, 0x43D, 0x438, 0x439] \<comment> \<open>nezadovolenyi\<close>
    ]"

text \<open>
  \<open>convertSanAnswer\<close>. The question number and the e-mail address only go into the
  console messages. The two literals of the first test are \<open>'3 ('\<close> and \<open>'3('\<close>.
\<close>

definition convertSanAnswer ::
  "(jsstring \<Rightarrow> jsstring) \<Rightarrow> jsstring \<Rightarrow> bool \<Rightarrow> nat \<Rightarrow> jsstring \<Rightarrow> int" where
  "convertSanAnswer toLowerCase rawValue isReversed questionNum email =
     (let normalized = trim rawValue in
      if startsWith normalized [0x33, 0x20, 0x28] \<or> startsWith normalized [0x33, 0x28] then
        (let lowerValue = toLowerCase normalized;
             isPositiveExtreme = some (\<lambda>kw. includesStr lowerValue kw) positiveKeywords;
             isNegativeExtreme = some (\<lambda>kw. includesStr lowerValue kw) negativeKeywords
         in if isPositiveExtreme then 7 else if isNegativeExtreme then 1 else 4)
      else
        (let cleanValue = stripNonDigits normalized;
             hasSpecialChar = (length normalized > length cleanValue \<and> length cleanValue > 0)
         in if cleanValue = [0x30] then 4
            else if cleanValue = [0x31] then
              (if hasSpecialChar then (if isReversed then 3 else 5)
               else if isReversed then 5 else 3)
            else if cleanValue = [0x32] then
              (if hasSpecialChar then (if isReversed then 2 else 6)
               else if isReversed then 6 else 2)
            else if cleanValue = [0x33] then 4
            else 4))"

section \<open>Numbers and array reads\<close>

text \<open>
  Every number the scoring code handles is an integer or, when an array is read past its
  end, \<open>NaN\<close> (\<open>undefined\<close> in arithmetic). A \<open>number\<close> is an integer or \<open>None\<close> for \<open>NaN\<close>;
  \<open>NaN\<close> is absorbing for \<open>+\<close> and \<open>-\<close>, and every comparison with it is false.
\<close>

type_synonym number = "int option"

definition jsAdd :: "number \<Rightarrow> number \<Rightarrow> number" where
  "jsAdd a b = (case a of None \<Rightarrow> None | Some x \<Rightarrow> (case b of None \<Rightarrow> None | Some y \<Rightarrow> Some (x + y)))"

definition jsSub :: "number \<Rightarrow> number \<Rightarrow> number" where
  "jsSub a b = (case a of None \<Rightarrow> None | Some x \<Rightarrow> (case b of None \<Rightarrow> None | Some y \<Rightarrow> Some (x - y)))"

definition jsLt :: "number \<Rightarrow> int \<Rightarrow> bool" where
  "jsLt a k = (case a of None \<Rightarrow> False | Some x \<Rightarrow> x < k)"

definition jsLe :: "number \<Rightarrow> int \<Rightarrow> bool" where
  "jsLe a k = (case a of None \<Rightarrow> False | Some x \<Rightarrow> x \<le> k)"

definition jsGt :: "number \<Rightarrow> int \<Rightarrow> bool" where
  "jsGt a k = (case a of None \<Rightarrow> False | Some x \<Rightarrow> x > k)"

text \<open>
  \<open>answers[qNum - 1]\<close> for a question number \<open>qNum\<close>: the element, or \<open>undefined\<close> (\<open>None\<close>)
  when the index is not one of the array.
\<close>

definition answerAt :: "'a list \<Rightarrow> nat \<Rightarrow> 'a option" where
  "answerAt answers qNum =
     (if 1 \<le> qNum \<and> qNum \<le> length answers then Some (answers ! (qNum - 1)) else None)"

text \<open>
  \<open>parseInt(s, 10)\<close>: leading white space is skipped, a sign is read, then the longest run
  of decimal digits; no digit gives \<open>NaN\<close>. The callers only compare the result with small
  bounds and return it when it lies within them, where it is exact.
\<close>

definition parseInt :: "jsstring \<Rightarrow> number" where
  "parseInt s =
     (let t = dropWhile isWhiteSpace s;
          negative = (t \<noteq> [] \<and> hd t = 0x2D);
          r = (if t \<noteq> [] \<and> (hd t = 0x2D \<or> hd t = 0x2B) then tl t else t);
          digits = takeWhile isDigit r
      in if digits = [] then None
         else Some ((if negative then - 1 else 1) * foldl (\<lambda>a c. 10 * a + (int c - 0x30)) 0 digits))"

section \<open>The other decoders\<close>

text \<open>\<open>convertShtepaAnswer\<close>: the literals are \<open>tak\<close>, \<open>+\<close>, \<open>ni\<close> and \<open>-\<close>.\<close>

definition convertShtepaAnswer ::
  "(jsstring \<Rightarrow> jsstring) \<Rightarrow> jsstring \<Rightarrow> nat \<Rightarrow> jsstring \<Rightarrow> bool" where
  "convertShtepaAnswer toLowerCase rawValue questionNum email =
     (let normalized = toLowerCase (trim rawValue) in
      if normalized = [0x442, 0x430, 0x43A] \<or> normalized = [0x2B] then True
      else if normalized = [0x43D, 0x456] \<or> normalized = [0x2D] then False
      else False)"

text \<open>The seven full answers of the Basic Ph questionnaire, with their values.\<close>

definition answerMap :: "(jsstring \<times> int) list" where
  "answerMap =
    [
     ([0x43D, 0x456, 0x43A, 0x43E, 0x43B, 0x438, 0x20, 0x43D, 0x435, 0x20, 0x43A, 0x43E, 0x440, 0x438, 0x441, 0x442, 0x443, 0x44E, 0x441, 0x44F, 0x20, 0x446, 0x438, 0x43C, 0x20, 0x441, 0x43F, 0x43E, 0x441, 0x43E, 0x431, 0x43E, 0x43C, 0x2C, 0x20, 0x449, 0x43E, 0x431, 0x20, 0x432, 0x43F, 0x43E, 0x440, 0x430, 0x442, 0x438, 0x441, 0x44F, 0x20, 0x437, 0x456, 0x20, 0x441, 0x43A, 0x43B, 0x430, 0x434, 0x43D, 0x43E, 0x44E, 0x20, 0x441, 0x438, 0x442, 0x443, 0x430, 0x446, 0x456, 0x454, 0x44E],
      0),
     ([0x440, 0x456, 0x434, 0x43A, 0x43E, 0x20, 0x43A, 0x43E, 0x440, 0x438, 0x441, 0x442, 0x443, 0x44E, 0x441, 0x44F, 0x20, 0x446, 0x438, 0x43C, 0x20, 0x441, 0x43F, 0x43E, 0x441, 0x43E, 0x431, 0x43E, 0x43C, 0x2C, 0x20, 0x449, 0x43E, 0x431, 0x20, 0x432, 0x43F, 0x43E, 0x440, 0x430, 0x442, 0x438, 0x441, 0x44F, 0x20, 0x437, 0x456, 0x20, 0x441, 0x43A, 0x43B, 0x430, 0x434, 0x43D, 0x43E, 0x44E, 0x20, 0x441, 0x438, 0x442, 0x443, 0x430, 0x446, 0x456, 0x454, 0x44E],
      1),
     ([0x456, 0x43D, 0x43E, 0x434, 0x456, 0x20, 0x43A, 0x43E, 0x440, 0x438, 0x441, 0x442, 0x443, 0x44E, 0x441, 0x44F, 0x20, 0x446, 0x438, 0x43C, 0x20, 0x441, 0x43F, 0x43E, 0x441, 0x43E, 0x431, 0x43E, 0x43C, 0x2C, 0x20, 0x449, 0x43E, 0x431, 0x20, 0x432, 0x43F, 0x43E, 0x440, 0x430, 0x442, 0x438, 0x441, 0x44F, 0x20, 0x437, 0x456, 0x20, 0x441, 0x43A, 0x43B, 0x430, 0x434, 0x43D, 0x43E, 0x44E, 0x20, 0x441, 0x438, 0x442, 0x443, 0x430, 0x446, 0x456, 0x454, 0x44E],
      2),
     ([0x43F, 0x435, 0x440, 0x456, 0x43E, 0x434, 0x438, 0x447, 0x43D, 0x43E, 0x20, 0x43A, 0x43E, 0x440, 0x438, 0x441, 0x442, 0x443, 0x44E, 0x441, 0x44F, 0x20, 0x446, 0x438, 0x43C, 0x20, 0x441, 0x43F, 0x43E, 0x441, 0x43E, 0x431, 0x43E, 0x43C, 0x2C, 0x20, 0x449, 0x43E, 0x431, 0x20, 0x432, 0x43F, 0x43E, 0x440, 0x430, 0x442, 0x438, 0x441, 0x44F, 0x20, 0x437, 0x456, 0x20, 0x441, 0x43A, 0x43B, 0x430, 0x434, 0x43D, 0x43E, 0x44E, 0x20, 0x441, 0x438, 0x442, 0x443, 0x430, 0x446, 0x456, 0x454, 0x44E],
      3),
     ([0x447, 0x430, 0x441, 0x442, 0x43E, 0x20, 0x43A, 0x43E, 0x440, 0x438, 0x441, 0x442, 0x443, 0x44E, 0x441, 0x44F, 0x20, 0x446, 0x438, 0x43C, 0x20, 0x441, 0x43F, 0x43E, 0x441, 0x43E, 0x431, 0x43E, 0x43C, 0x2C, 0x20, 0x449, 0x43E, 0x431, 0x20, 0x432, 0x43F, 0x43E, 0x440, 0x430, 0x442, 0x438, 0x441, 0x44F, 0x20, 0x437, 0x456, 0x20, 0x441, 0x43A, 0x43B, 0x430, 0x434, 0x43D, 0x43E, 0x44E, 0x20, 0x441, 0x438, 0x442, 0x443, 0x430, 0x446, 0x456, 0x454, 0x44E],
      4),
     ([0x43C, 0x430, 0x439, 0x436, 0x435, 0x20, 0x437, 0x430, 0x432, 0x436, 0x434, 0x438, 0x20, 0x43A, 0x43E, 0x440, 0x438, 0x441, 0x442, 0x443, 0x44E, 0x441, 0x44F, 0x20, 0x446, 0x438, 0x43C, 0x20, 0x441, 0x43F, 0x43E, 0x441, 0x43E, 0x431, 0x43E, 0x43C, 0x2C, 0x20, 0x449, 0x43E, 0x431, 0x20, 0x432, 0x43F, 0x43E, 0x440, 0x430, 0x442, 0x438, 0x441, 0x44F, 0x20, 0x437, 0x456, 0x20, 0x441, 0x43A, 0x43B, 0x430, 0x434, 0x43D, 0x43E, 0x44E, 0x20, 0x441, 0x438, 0x442, 0x443, 0x430, 0x446, 0x456, 0x454, 0x44E],
      5),
     ([0x437, 0x430, 0x432, 0x436, 0x434, 0x438, 0x20, 0x43A, 0x43E, 0x440, 0x438, 0x441, 0x442, 0x443, 0x44E, 0x441, 0x44F, 0x20, 0x446, 0x438, 0x43C, 0x20, 0x441, 0x43F, 0x43E, 0x441, 0x43E, 0x431, 0x43E, 0x43C, 0x2C, 0x20, 0x449, 0x43E, 0x431, 0x20, 0x432, 0x43F, 0x43E, 0x440, 0x430, 0x442, 0x438, 0x441, 0x44F, 0x20, 0x437, 0x456, 0x20, 0x441, 0x43A, 0x43B, 0x430, 0x434, 0x43D, 0x43E, 0x44E, 0x20, 0x441, 0x438, 0x442, 0x443, 0x430, 0x446, 0x456, 0x454, 0x44E],
      6)
    ]"

text \<open>
  \<open>convertBasicPhAnswer\<close>. \<open>answerMap.hasOwnProperty(normalized)\<close> holds when \<open>normalized\<close> is
  one of the seven keys. The keywords are, in the order tested: \<open>nikoly\<close>, \<open>ridko\<close>,
  \<open>inodi\<close>, \<open>periodychno\<close>, \<open>chasto\<close>, \<open>maizhe zavzhdy\<close>, \<open>zavzhdy\<close>.
\<close>

definition convertBasicPhAnswer ::
  "(jsstring \<Rightarrow> jsstring) \<Rightarrow> jsstring \<Rightarrow> nat \<Rightarrow> jsstring \<Rightarrow> int" where
  "convertBasicPhAnswer toLowerCase rawValue questionNum email =
     (let normalized = toLowerCase (trim rawValue) in
      case map_of answerMap normalized of
        Some v \<Rightarrow> v
      | None \<Rightarrow>
          if includesStr normalized [0x43D, 0x456, 0x43A, 0x43E, 0x43B, 0x438] then 0
          else if includesStr normalized [0x440, 0x456, 0x434, 0x43A, 0x43E] then 1
          else if includesStr normalized [0x456, 0x43D, 0x43E, 0x434, 0x456] then 2
          else if includesStr normalized [0x43F, 0x435, 0x440, 0x456, 0x43E, 0x434, 0x438, 0x447, 0x43D, 0x43E] then 3
          else if includesStr normalized [0x447, 0x430, 0x441, 0x442, 0x43E] then 4
          else if includesStr normalized [0x43C, 0x430, 0x439, 0x436, 0x435, 0x20, 0x437, 0x430, 0x432, 0x436, 0x434, 0x438] then 5
          else if includesStr normalized [0x437, 0x430, 0x432, 0x436, 0x434, 0x438] then 6
          else (let numValue = parseInt normalized in
                case numValue of
                  Some n \<Rightarrow> if n \<ge> 0 \<and> n \<le> 6 then n else 0
                | None \<Rightarrow> 0))"

text \<open>
  \<open>convertPersonalResourceAnswer\<close>. The phrases are, level by level:
  \<open>povnistiu ne pohodzhuius'\<close>, \<open>povnistiu ne pohodzhuiusia\<close>, \<open>maizhe nikoly\<close>;
  \<open>chastkovo ne pohodzhus'\<close>, \<open>chastkovo ne pohodzhuiusia\<close>, \<open>ridko\<close>;
  \<open>vazhko vyznachytysia\<close>, \<open>chas vid chasu\<close>;
  \<open>chastkovo pohodzhuius'\<close>, \<open>chastkovo pohodzhuiusia\<close>, \<open>chasto\<close>;
  \<open>povnistiu pohodzhuius'\<close>, \<open>povnistiu pohodzhuiusia\<close>, \<open>maizhe zavzhdy\<close>.
\<close>

definition convertPersonalResourceAnswer ::
  "(jsstring \<Rightarrow> jsstring) \<Rightarrow> jsstring \<Rightarrow> nat \<Rightarrow> jsstring \<Rightarrow> int" where
  "convertPersonalResourceAnswer toLowerCase rawValue questionNum email =
     (let normalized = toLowerCase (trim rawValue) in
      if includesStr normalized [0x43F, 0x43E, 0x432, 0x43D, 0x456, 0x441, 0x442, 0x44E, 0x20, 0x43D, 0x435, 0x20, 0x43F, 0x43E, 0x433, 0x43E, 0x434, 0x436, 0x443, 0x44E, 0x441, 0x44C]
         \<or> includesStr normalized [0x43F, 0x43E, 0x432, 0x43D, 0x456, 0x441, 0x442, 0x44E, 0x20, 0x43D, 0x435, 0x20, 0x43F, 0x43E, 0x433, 0x43E, 0x434, 0x436, 0x443, 0x44E, 0x441, 0x44F]
         \<or> includesStr normalized [0x43C, 0x430, 0x439, 0x436, 0x435, 0x20, 0x43D, 0x456, 0x43A, 0x43E, 0x43B, 0x438] then 1
      else if includesStr normalized [0x447, 0x430, 0x441, 0x442, 0x43A, 0x43E, 0x432, 0x43E, 0x20, 0x43D, 0x435, 0x20, 0x43F, 0x43E, 0x433, 0x43E, 0x434, 0x436, 0x443, 0x441, 0x44C]
         \<or> includesStr normalized [0x447, 0x430, 0x441, 0x442, 0x43A, 0x43E, 0x432, 0x43E, 0x20, 0x43D, 0x435, 0x20, 0x43F, 0x43E, 0x433, 0x43E, 0x434, 0x436, 0x443, 0x44E, 0x441, 0x44F]
         \<or> includesStr normalized [0x440, 0x456, 0x434, 0x43A, 0x43E] then 2
      else if includesStr normalized [0x432, 0x430, 0x436, 0x43A, 0x43E, 0x20, 0x432, 0x438, 0x437, 0x43D, 0x430, 0x447, 0x438, 0x442, 0x438, 0x441, 0x44F]
         \<or> includesStr normalized [0x447, 0x430, 0x441, 0x20, 0x432, 0x456, 0x434, 0x20, 0x447, 0x430, 0x441, 0x443] then 3
      else if includesStr normalized [0x447, 0x430, 0x441, 0x442, 0x43A, 0x43E, 0x432, 0x43E, 0x20, 0x43F, 0x43E, 0x433, 0x43E, 0x434, 0x436, 0x443, 0x44E, 0x441, 0x44C]
         \<or> includesStr normalized [0x447, 0x430, 0x441, 0x442, 0x43A, 0x43E, 0x432, 0x43E, 0x20, 0x43F, 0x43E, 0x433, 0x43E, 0x434, 0x436, 0x443, 0x44E, 0x441, 0x44F]
         \<or> includesStr normalized [0x447, 0x430, 0x441, 0x442, 0x43E] then 4
      else if includesStr normalized [0x43F, 0x43E, 0x432, 0x43D, 0x456, 0x441, 0x442, 0x44E, 0x20, 0x43F, 0x43E, 0x433, 0x43E, 0x434, 0x436, 0x443, 0x44E, 0x441, 0x44C]
         \<or> includesStr normalized [0x43F, 0x43E, 0x432, 0x43D, 0x456, 0x441, 0x442, 0x44E, 0x20, 0x43F, 0x43E, 0x433, 0x43E, 0x434, 0x436, 0x443, 0x44E, 0x441, 0x44F]
         \<or> includesStr normalized [0x43C, 0x430, 0x439, 0x436, 0x435, 0x20, 0x437, 0x430, 0x432, 0x436, 0x434, 0x438] then 5
      else (let numValue = parseInt normalized in
            case numValue of
              Some n \<Rightarrow> if n \<ge> 1 \<and> n \<le> 5 then n else 3
            | None \<Rightarrow> 3))"

text \<open>
  \<open>convertRyffAnswer\<close>. The phrases are \<open>povnistiu ne zhoden\<close>, \<open>zdebil'shoho ne zhoden\<close>,
  \<open>de v chomu ne zhoden\<close>, \<open>de v chomu zhoden\<close>, \<open>shvydshe zhoden\<close>, \<open>povnistiu zhoden\<close>.
\<close>

definition convertRyffAnswer ::
  "(jsstring \<Rightarrow> jsstring) \<Rightarrow> jsstring \<Rightarrow> nat \<Rightarrow> jsstring \<Rightarrow> int" where
  "convertRyffAnswer toLowerCase rawValue questionNum email =
     (let normalized = toLowerCase (trim rawValue) in
      if includesStr normalized [0x43F, 0x43E, 0x432, 0x43D, 0x456, 0x441, 0x442, 0x44E, 0x20, 0x43D, 0x435, 0x20, 0x437, 0x433, 0x43E, 0x434, 0x435, 0x43D] then 1
      else if includesStr normalized [0x437, 0x434, 0x435, 0x431, 0x456, 0x43B, 0x44C, 0x448, 0x43E, 0x433, 0x43E, 0x20, 0x43D, 0x435, 0x20, 0x437, 0x433, 0x43E, 0x434, 0x435, 0x43D] then 2
      else if includesStr normalized [0x434, 0x435, 0x20, 0x432, 0x20, 0x447, 0x43E, 0x43C, 0x443, 0x20, 0x43D, 0x435, 0x20, 0x437, 0x433, 0x43E, 0x434, 0x435, 0x43D] then 3
      else if includesStr normalized [0x434, 0x435, 0x20, 0x432, 0x20, 0x447, 0x43E, 0x43C, 0x443, 0x20, 0x437, 0x433, 0x43E, 0x434, 0x435, 0x43D] then 4
      else if includesStr normalized [0x448, 0x432, 0x438, 0x434, 0x448, 0x435, 0x20, 0x437, 0x433, 0x43E, 0x434, 0x435, 0x43D] then 5
      else if includesStr normalized [0x43F, 0x43E, 0x432, 0x43D, 0x456, 0x441, 0x442, 0x44E, 0x20, 0x437, 0x433, 0x43E, 0x434, 0x435, 0x43D] then 6
      else (let numValue = parseInt normalized in
            case numValue of
              Some n \<Rightarrow> if n \<ge> 1 \<and> n \<le> 6 then n else 3
            | None \<Rightarrow> 3))"

section \<open>Category tables\<close>

text \<open>
  A question slot \<open>{ num, expected }\<close> or \<open>{ num, isReversed }\<close> is the pair of its question
  number and its flag.
\<close>

record CategoryDefinition =
  name :: jsstring
  questions :: "(nat \<times> bool) list"

record BasicPhCategoryDefinition =
  code :: jsstring
  name :: jsstring
  questions :: "nat list"

record RyffCategoryDefinition =
  name :: jsstring
  questions :: "(nat \<times> bool) list"
  lowThreshold :: int
  highThreshold :: int

definition reversedQuestions :: "nat list" where
  "reversedQuestions = [3, 4, 9, 10, 13, 15, 16, 21, 22, 27, 28]"

definition shtepaCategories :: "CategoryDefinition list" where
  "shtepaCategories =
    [
     \<lparr>CategoryDefinition.name = [0x423, 0x43F, 0x435, 0x432, 0x43D, 0x435, 0x43D, 0x456, 0x441, 0x442, 0x44C, 0x20, 0x443, 0x20, 0x441, 0x43E, 0x431, 0x456], \<comment> \<open>Upevnenist' u sobi\<close>
      CategoryDefinition.questions = [(2, True), (3, True), (9, False), (11, True), (12, False), (21, False), (22, False), (55, True)]\<rparr>,
     \<lparr>CategoryDefinition.name = [0x414, 0x43E, 0x431, 0x440, 0x43E, 0x442, 0x430, 0x20, 0x434, 0x43E, 0x20, 0x43B, 0x44E, 0x434, 0x435, 0x439], \<comment> \<open>Dobrota do liudei\<close>
      CategoryDefinition.questions = [(4, True), (5, True), (15, False), (16, False), (17, False), (26, False), (27, False), (28, True)]\<rparr>,
     \<lparr>CategoryDefinition.name = [0x414, 0x43E, 0x43F, 0x43E, 0x43C, 0x43E, 0x433, 0x430, 0x20, 0x456, 0x43D, 0x448, 0x438, 0x43C], \<comment> \<open>Dopomoha inshym\<close>
      CategoryDefinition.questions = [(4, True), (6, True), (10, False), (17, False), (18, False), (36, True), (37, True), (38, True)]\<rparr>,
     \<lparr>CategoryDefinition.name = [0x423, 0x441, 0x43F, 0x456, 0x445], \<comment> \<open>Uspikh\<close>
      CategoryDefinition.questions = [(1, True), (12, False), (14, True), (29, True), (34, True), (40, True), (42, False), (55, True)]\<rparr>,
     \<lparr>CategoryDefinition.name = [0x41B, 0x44E, 0x431, 0x43E, 0x432], \<comment> \<open>Liubov\<close>
      CategoryDefinition.questions = [(7, False), (8, False), (11, True), (30, True), (33, False), (51, True), (52, True), (53, True)]\<rparr>,
     \<lparr>CategoryDefinition.name = [0x422, 0x432, 0x43E, 0x440, 0x447, 0x456, 0x441, 0x442, 0x44C], \<comment> \<open>Tvorchist'\<close>
      CategoryDefinition.questions = [(23, False), (24, False), (25, False), (31, True), (37, True), (40, True), (53, True), (54, True)]\<rparr>,
     \<lparr>CategoryDefinition.name = [0x412, 0x456, 0x440, 0x430, 0x20, 0x443, 0x20, 0x434, 0x43E, 0x431, 0x440, 0x43E], \<comment> \<open>Vira u dobro\<close>
      CategoryDefinition.questions = [(1, True), (6, True), (7, False), (13, False), (16, False), (28, True), (34, True), (35, True)]\<rparr>,
     \<lparr>CategoryDefinition.name = [0x41F, 0x440, 0x430, 0x433, 0x43D, 0x435, 0x43D, 0x43D, 0x44F, 0x20, 0x434, 0x43E, 0x20, 0x43C, 0x443, 0x434, 0x440, 0x43E, 0x441, 0x442, 0x456], \<comment> \<open>Prahnennia do mudrosti\<close>
      CategoryDefinition.questions = [(33, False), (36, True), (39, True), (45, False), (46, False), (47, False), (54, True), (55, True)]\<rparr>,
     \<lparr>CategoryDefinition.name = [0x420, 0x43E, 0x431, 0x43E, 0x442, 0x430, 0x20, 0x43D, 0x430, 0x434, 0x20, 0x441, 0x43E, 0x431, 0x43E, 0x44E], \<comment> \<open>Robota nad soboiu\<close>
      CategoryDefinition.questions = [(11, True), (41, True), (43, False), (48, False), (49, False), (50, False), (52, True), (54, True)]\<rparr>,
     \<lparr>CategoryDefinition.name = [0x421, 0x430, 0x43C, 0x43E, 0x440, 0x435, 0x430, 0x43B, 0x456, 0x437, 0x430, 0x446, 0x456, 0x44F, 0x20, 0x443, 0x20, 0x43F, 0x440, 0x43E, 0x444, 0x435, 0x441, 0x456, 0x457], \<comment> \<open>Samorealizatsiia u profesii\<close>
      CategoryDefinition.questions = [(11, True), (23, False), (24, False), (40, True), (42, False), (44, False), (47, False), (53, True)]\<rparr>,
     \<lparr>CategoryDefinition.name = [0x412, 0x456, 0x434, 0x43F, 0x43E, 0x432, 0x456, 0x434, 0x430, 0x43B, 0x44C, 0x43D, 0x456, 0x441, 0x442, 0x44C], \<comment> \<open>Vidpovidal'nist'\<close>
      CategoryDefinition.questions = [(8, False), (10, False), (19, False), (20, True), (22, False), (32, True), (51, True), (52, True)]\<rparr>,
     \<lparr>CategoryDefinition.name = [0x417, 0x43D, 0x430, 0x43D, 0x43D, 0x44F, 0x20, 0x432, 0x43B, 0x430, 0x441, 0x43D, 0x438, 0x445, 0x20, 0x440, 0x435, 0x441, 0x443, 0x440, 0x441, 0x456, 0x432], \<comment> \<open>Znannia vlasnykh resursiv\<close>
      CategoryDefinition.questions = [(57, False), (59, False), (60, True), (61, True), (62, False), (63, False), (66, False), (67, True)]\<rparr>,
     \<lparr>CategoryDefinition.name = [0x423, 0x43C, 0x456, 0x43D, 0x43D, 0x44F, 0x20, 0x43E, 0x43D, 0x43E, 0x432, 0x43B, 0x44E, 0x432, 0x430, 0x442, 0x438, 0x20, 0x432, 0x43B, 0x430, 0x441, 0x43D, 0x456, 0x20, 0x440, 0x435, 0x441, 0x443, 0x440, 0x441, 0x438], \<comment> \<open>Uminnia onovliuvaty vlasni resursy\<close>
      CategoryDefinition.questions = [(56, True), (58, True), (60, True), (61, True), (62, False), (63, False), (64, False), (66, False)]\<rparr>,
     \<lparr>CategoryDefinition.name = [0x423, 0x43C, 0x456, 0x43D, 0x43D, 0x44F, 0x20, 0x432, 0x438, 0x43A, 0x43E, 0x440, 0x438, 0x441, 0x442, 0x43E, 0x432, 0x443, 0x432, 0x430, 0x442, 0x438, 0x20, 0x432, 0x43B, 0x430, 0x441, 0x43D, 0x456, 0x20, 0x440, 0x435, 0x441, 0x443, 0x440, 0x441, 0x438], \<comment> \<open>Uminnia vykorystovuvaty vlasni resursy\<close>
      CategoryDefinition.questions = [(58, True), (59, False), (61, True), (63, False), (64, False), (65, True), (66, False), (67, True)]\<rparr>
    ]"

definition basicPhCategories :: "BasicPhCategoryDefinition list" where
  "basicPhCategories =
    [
     \<lparr>BasicPhCategoryDefinition.code = [0x42], \<comment> \<open>B\<close>
      BasicPhCategoryDefinition.name = [0x412, 0x456, 0x440, 0x430, 0x2C, 0x20, 0x43F, 0x435, 0x440, 0x435, 0x43A, 0x43E, 0x43D, 0x430, 0x43D, 0x43D, 0x44F], \<comment> \<open>Vira, perekonannia\<close>
      BasicPhCategoryDefinition.questions = [1, 7, 13, 19, 25, 31]\<rparr>,
     \<lparr>BasicPhCategoryDefinition.code = [0x41], \<comment> \<open>A\<close>
      BasicPhCategoryDefinition.name = [0x415, 0x43C, 0x43E, 0x446, 0x456, 0x457, 0x2C, 0x20, 0x43F, 0x43E, 0x447, 0x443, 0x442, 0x442, 0x44F], \<comment> \<open>Emotsii, pochuttia\<close>
      BasicPhCategoryDefinition.questions = [2, 8, 14, 20, 26, 32]\<rparr>,
     \<lparr>BasicPhCategoryDefinition.code = [0x53], \<comment> \<open>S\<close>
      BasicPhCategoryDefinition.name = [0x421, 0x43E, 0x446, 0x456, 0x430, 0x43B, 0x44C, 0x43D, 0x456, 0x20, 0x437, 0x432, 0x27, 0x44F, 0x437, 0x43A, 0x438], \<comment> \<open>Sotsial'ni zv'iazky\<close>
      BasicPhCategoryDefinition.questions = [3, 9, 15, 21, 27, 33]\<rparr>,
     \<lparr>BasicPhCategoryDefinition.code = [0x49], \<comment> \<open>I\<close>
      BasicPhCategoryDefinition.name = [0x423, 0x44F, 0x432, 0x430, 0x2C, 0x20, 0x43C, 0x440, 0x456, 0x457], \<comment> \<open>Uiava, mrii\<close>
      BasicPhCategoryDefinition.questions = [4, 10, 16, 22, 28, 34]\<rparr>,
     \<lparr>BasicPhCategoryDefinition.code = [0x43], \<comment> \<open>C\<close>
      BasicPhCategoryDefinition.name = [0x41A, 0x43E, 0x433, 0x43D, 0x456, 0x442, 0x438, 0x432, 0x43D, 0x456, 0x20, 0x441, 0x442, 0x440, 0x430, 0x442, 0x435, 0x433, 0x456, 0x457], \<comment> \<open>Kohnityvni stratehii\<close>
      BasicPhCategoryDefinition.questions = [5, 11, 17, 23, 29, 35]\<rparr>,
     \<lparr>BasicPhCategoryDefinition.code = [0x50, 0x68], \<comment> \<open>Ph\<close>
      BasicPhCategoryDefinition.name = [0x422, 0x456, 0x43B, 0x435, 0x441, 0x43D, 0x456, 0x20, 0x440, 0x435, 0x441, 0x443, 0x440, 0x441, 0x438], \<comment> \<open>Tilesni resursy\<close>
      BasicPhCategoryDefinition.questions = [6, 12, 18, 24, 30, 36]\<rparr>
    ]"

definition ryffCategories_relationships :: RyffCategoryDefinition where
  "ryffCategories_relationships =
     \<lparr>RyffCategoryDefinition.name = [0x412, 0x456, 0x434, 0x43D, 0x43E, 0x441, 0x438, 0x43D, 0x438], \<comment> \<open>Vidnosyny\<close>
      RyffCategoryDefinition.questions = [(1, False), (7, True), (13, True), (19, False), (25, False),
        (31, True), (37, False), (43, True), (49, False), (55, True),
        (61, True), (67, False), (73, True), (79, False)],
      lowThreshold = 53, highThreshold = 74\<rparr>"

definition ryffCategories_autonomy :: RyffCategoryDefinition where
  "ryffCategories_autonomy =
     \<lparr>RyffCategoryDefinition.name = [0x410, 0x432, 0x442, 0x43E, 0x43D, 0x43E, 0x43C, 0x456, 0x44F], \<comment> \<open>Avtonomiia\<close>
      RyffCategoryDefinition.questions = [(2, True), (8, False), (14, False), (20, True), (26, False),
        (32, True), (38, False), (44, True), (50, False), (56, True),
        (62, True), (68, False), (74, True), (80, False)],
      lowThreshold = 48, highThreshold = 62\<rparr>"

definition ryffCategories_environment :: RyffCategoryDefinition where
  "ryffCategories_environment =
     \<lparr>RyffCategoryDefinition.name = [0x421, 0x435, 0x440, 0x435, 0x434, 0x43E, 0x432, 0x438, 0x449, 0x435], \<comment> \<open>Seredovyshche\<close>
      RyffCategoryDefinition.questions = [(3, False), (9, True), (15, True), (21, False), (27, True),
        (33, False), (39, False), (45, True), (51, False), (57, False),
        (63, True), (69, False), (75, True), (81, False)],
      lowThreshold = 51, highThreshold = 71\<rparr>"

definition ryffCategories_growth :: RyffCategoryDefinition where
  "ryffCategories_growth =
     \<lparr>RyffCategoryDefinition.name = [0x417, 0x440, 0x43E, 0x441, 0x442, 0x430, 0x43D, 0x43D, 0x44F], \<comment> \<open>Zrostannia\<close>
      RyffCategoryDefinition.questions = [(4, True), (10, False), (16, False), (22, True), (28, False),
        (34, True), (40, False), (46, False), (52, False), (58, True),
        (64, False), (70, False), (76, True), (82, True)],
      lowThreshold = 53, highThreshold = 71\<rparr>"

definition ryffCategories_purpose :: RyffCategoryDefinition where
  "ryffCategories_purpose =
     \<lparr>RyffCategoryDefinition.name = [0x426, 0x456, 0x43B, 0x456], \<comment> \<open>Tsili\<close>
      RyffCategoryDefinition.questions = [(5, False), (11, True), (17, True), (23, False), (29, True),
        (35, True), (41, True), (47, False), (53, False), (59, False),
        (65, True), (71, False), (77, False), (83, True)],
      lowThreshold = 54, highThreshold = 75\<rparr>"

definition ryffCategories_selfAcceptance :: RyffCategoryDefinition where
  "ryffCategories_selfAcceptance =
     \<lparr>RyffCategoryDefinition.name = [0x421, 0x430, 0x43C, 0x43E, 0x441, 0x43F, 0x440, 0x438, 0x439, 0x43D, 0x44F, 0x442, 0x442, 0x44F], \<comment> \<open>Samospryiniattia\<close>
      RyffCategoryDefinition.questions = [(6, False), (12, False), (18, True), (24, True), (30, False),
        (36, False), (42, True), (48, False), (54, True), (60, True),
        (66, True), (72, False), (78, False), (84, True)],
      lowThreshold = 49, highThreshold = 71\<rparr>"

definition personalResourceSufficiencyQuestions :: "nat list" where
  "personalResourceSufficiencyQuestions = [1, 2, 4, 5, 9, 10]"

definition personalResourceCopingQuestions :: "nat list" where
  "personalResourceCopingQuestions = [3, 6, 8, 12]"

definition personalResourceExhaustionQuestions :: "nat list" where
  "personalResourceExhaustionQuestions = [7, 11, 13]"

definition ryffTotalLowThreshold :: int where
  "ryffTotalLowThreshold = 315"

definition ryffTotalHighThreshold :: int where
  "ryffTotalHighThreshold = 413"

section \<open>Results\<close>

record ShtepaCategory =
  name :: jsstring
  score :: int
  maxScore :: int

record ShtepaResult =
  categories :: "ShtepaCategory list"
  totalScore :: int
  totalLevel :: jsstring
  totalLevelClass :: jsstring

record BasicPhCategory =
  code :: jsstring
  name :: jsstring
  score :: number
  maxScore :: int

record BasicPhResult =
  categories :: "BasicPhCategory list"
  totalScore :: number

record PersonalResourceCategory =
  name :: jsstring
  score :: number
  maxScore :: int
  level :: jsstring
  levelClass :: jsstring

record PersonalResourceResult =
  sufficiency :: PersonalResourceCategory
  copingStrategies :: PersonalResourceCategory
  emotionalExhaustion :: PersonalResourceCategory
  totalScore :: number
  totalLevel :: jsstring
  totalLevelClass :: jsstring

record RyffCategory =
  name :: jsstring
  score :: number
  maxScore :: int
  level :: jsstring
  levelClass :: jsstring

record RyffResult =
  relationships :: RyffCategory
  autonomy :: RyffCategory
  environment :: RyffCategory
  growth :: RyffCategory
  purpose :: RyffCategory
  selfAcceptance :: RyffCategory
  totalScore :: number
  totalLevel :: jsstring
  totalLevelClass :: jsstring

text \<open>
  The level labels \<open>Nyz'kyi\<close>, \<open>Serednii\<close>, \<open>Vysokyi\<close> and the level classes
  \<open>low\<close>, \<open>medium\<close>, \<open>high\<close>, \<open>not-diagnosed\<close>, \<open>doubtful\<close>.
\<close>

abbreviation Nyzkyi :: jsstring where
  "Nyzkyi \<equiv> [0x41D, 0x438, 0x437, 0x44C, 0x43A, 0x438, 0x439]"

abbreviation Serednii :: jsstring where
  "Serednii \<equiv> [0x421, 0x435, 0x440, 0x435, 0x434, 0x43D, 0x456, 0x439]"

abbreviation Vysokyi :: jsstring where
  "Vysokyi \<equiv> [0x412, 0x438, 0x441, 0x43E, 0x43A, 0x438, 0x439]"

abbreviation class_low :: jsstring where
  "class_low \<equiv> [0x6C, 0x6F, 0x77]"

abbreviation class_medium :: jsstring where
  "class_medium \<equiv> [0x6D, 0x65, 0x64, 0x69, 0x75, 0x6D]"

abbreviation class_high :: jsstring where
  "class_high \<equiv> [0x68, 0x69, 0x67, 0x68]"

abbreviation class_not_diagnosed :: jsstring where
  "class_not_diagnosed \<equiv> [0x6E, 0x6F, 0x74, 0x2D, 0x64, 0x69, 0x61, 0x67, 0x6E, 0x6F, 0x73, 0x65, 0x64]"

abbreviation class_doubtful :: jsstring where
  "class_doubtful \<equiv> [0x64, 0x6F, 0x75, 0x62, 0x74, 0x66, 0x75, 0x6C]"

text \<open>
  The five labels of the Shtepa total: \<open>Psykholohichna resursnist' ne diahnostuiet'sia\<close>,
  \<open>Nyz'kyi riven'\<close>, \<open>Serednii riven'\<close>, \<open>Vysokyi riven'\<close>, \<open>Sumnivni dani\<close>.
\<close>

abbreviation NeDiahnostuietsia :: jsstring where
  "NeDiahnostuietsia \<equiv>
     [0x41F, 0x441, 0x438, 0x445, 0x43E, 0x43B, 0x43E, 0x433, 0x456, 0x447, 0x43D, 0x430, 0x20, 0x440, 0x435, 0x441, 0x443, 0x440, 0x441, 0x43D, 0x456, 0x441, 0x442, 0x44C, 0x20, 0x43D, 0x435, 0x20, 0x434, 0x456, 0x430, 0x433, 0x43D, 0x43E, 0x441, 0x442, 0x443, 0x454, 0x442, 0x44C, 0x441, 0x44F]"

abbreviation NyzkyiRiven :: jsstring where
  "NyzkyiRiven \<equiv> [0x41D, 0x438, 0x437, 0x44C, 0x43A, 0x438, 0x439, 0x20, 0x440, 0x456, 0x432, 0x435, 0x43D, 0x44C]"

abbreviation SeredniiRiven :: jsstring where
  "SeredniiRiven \<equiv> [0x421, 0x435, 0x440, 0x435, 0x434, 0x43D, 0x456, 0x439, 0x20, 0x440, 0x456, 0x432, 0x435, 0x43D, 0x44C]"

abbreviation VysokyiRiven :: jsstring where
  "VysokyiRiven \<equiv> [0x412, 0x438, 0x441, 0x43E, 0x43A, 0x438, 0x439, 0x20, 0x440, 0x456, 0x432, 0x435, 0x43D, 0x44C]"

abbreviation SumnivniDani :: jsstring where
  "SumnivniDani \<equiv> [0x421, 0x443, 0x43C, 0x43D, 0x456, 0x432, 0x43D, 0x456, 0x20, 0x434, 0x430, 0x43D, 0x456]"

section \<open>Score calculation\<close>

text \<open>
  \<open>calculateShtepaResults\<close>. The inner loop counts the slots whose answer is strictly equal
  to the expected value (an \<open>undefined\<close> answer equals neither); the outer loop appends
  one category result after the other and adds up the total.
\<close>

definition shtepaScore :: "bool list \<Rightarrow> (nat \<times> bool) list \<Rightarrow> int" where
  "shtepaScore answers qs =
     fold (\<lambda>q score. if answerAt answers (fst q) = Some (snd q) then score + 1 else score) qs 0"

definition shtepaStep ::
  "bool list \<Rightarrow> CategoryDefinition \<Rightarrow> ShtepaCategory list \<times> int \<Rightarrow> ShtepaCategory list \<times> int" where
  "shtepaStep answers catDef acc =
     (let score = shtepaScore answers (CategoryDefinition.questions catDef) in
      (fst acc @ [\<lparr>ShtepaCategory.name = CategoryDefinition.name catDef,
                   ShtepaCategory.score = score,
                   ShtepaCategory.maxScore = int (length (CategoryDefinition.questions catDef))\<rparr>],
       snd acc + score))"

definition calculateShtepaResults :: "bool list \<Rightarrow> ShtepaResult" where
  "calculateShtepaResults answers =
     (let acc = fold (shtepaStep answers) shtepaCategories ([], 0);
          categories = fst acc;
          totalScore = snd acc
      in if totalScore \<le> 56 then
           \<lparr>ShtepaResult.categories = categories, ShtepaResult.totalScore = totalScore,
            ShtepaResult.totalLevel = NeDiahnostuietsia,
            ShtepaResult.totalLevelClass = class_not_diagnosed\<rparr>
         else if totalScore \<le> 69 then
           \<lparr>ShtepaResult.categories = categories, ShtepaResult.totalScore = totalScore,
            ShtepaResult.totalLevel = NyzkyiRiven,
            ShtepaResult.totalLevelClass = class_low\<rparr>
         else if totalScore \<le> 92 then
           \<lparr>ShtepaResult.categories = categories, ShtepaResult.totalScore = totalScore,
            ShtepaResult.totalLevel = SeredniiRiven,
            ShtepaResult.totalLevelClass = class_medium\<rparr>
         else if totalScore \<le> 106 then
           \<lparr>ShtepaResult.categories = categories, ShtepaResult.totalScore = totalScore,
            ShtepaResult.totalLevel = VysokyiRiven,
            ShtepaResult.totalLevelClass = class_high\<rparr>
         else
           \<lparr>ShtepaResult.categories = categories, ShtepaResult.totalScore = totalScore,
            ShtepaResult.totalLevel = SumnivniDani,
            ShtepaResult.totalLevelClass = class_doubtful\<rparr>)"

text \<open>
  \<open>calculateBasicPhResults\<close>, and the sum of the answers of a list of question numbers,
  which the Personal Resources calculation uses too: \<open>score += answers[qNum - 1]\<close>.
\<close>

definition sumAnswers :: "int list \<Rightarrow> nat list \<Rightarrow> number" where
  "sumAnswers answers qs = fold (\<lambda>qNum score. jsAdd score (answerAt answers qNum)) qs (Some 0)"

definition basicPhStep ::
  "int list \<Rightarrow> BasicPhCategoryDefinition \<Rightarrow> BasicPhCategory list \<times> number
     \<Rightarrow> BasicPhCategory list \<times> number" where
  "basicPhStep answers catDef acc =
     (let score = sumAnswers answers (BasicPhCategoryDefinition.questions catDef) in
      (fst acc @ [\<lparr>BasicPhCategory.code = BasicPhCategoryDefinition.code catDef,
                   BasicPhCategory.name = BasicPhCategoryDefinition.name catDef,
                   BasicPhCategory.score = score,
                   BasicPhCategory.maxScore = 36\<rparr>],
       jsAdd (snd acc) score))"

definition calculateBasicPhResults :: "int list \<Rightarrow> BasicPhResult" where
  "calculateBasicPhResults answers =
     (let acc = fold (basicPhStep answers) basicPhCategories ([], Some 0) in
      \<lparr>BasicPhResult.categories = fst acc, BasicPhResult.totalScore = snd acc\<rparr>)"

text \<open>
  \<open>calculatePersonalResourceResults\<close>. Each level function returns the pair of the level
  label and the level class. The category names are \<open>Dostatnist'\<close>,
  \<open>Stratehii podolannia\<close> and \<open>Emotsiina spustoshenist'\<close>.
\<close>

definition getSufficiencyLevel :: "number \<Rightarrow> jsstring \<times> jsstring" where
  "getSufficiencyLevel = (\<lambda>score.
      if jsLt score 13 then (Nyzkyi, class_low)
      else if jsLe score 21 then (Serednii, class_medium)
      else (Vysokyi, class_high))"

definition getCopingLevel :: "number \<Rightarrow> jsstring \<times> jsstring" where
  "getCopingLevel = (\<lambda>score.
      if jsLt score 13 then (Nyzkyi, class_low)
      else if jsLe score 18 then (Serednii, class_medium)
      else (Vysokyi, class_high))"

definition getExhaustionLevel :: "number \<Rightarrow> jsstring \<times> jsstring" where
  "getExhaustionLevel = (\<lambda>score.
      if jsLt score 8 then (Nyzkyi, class_high)
      else if jsLe score 12 then (Serednii, class_medium)
      else (Vysokyi, class_low))"

definition calculatePersonalResourceResults :: "int list \<Rightarrow> PersonalResourceResult" where
  "calculatePersonalResourceResults answers =
     (let sufficiencyScore = sumAnswers answers personalResourceSufficiencyQuestions;
          copingScore = sumAnswers answers personalResourceCopingQuestions;
          exhaustionScore = sumAnswers answers personalResourceExhaustionQuestions;
          sufficiencyLevel = getSufficiencyLevel sufficiencyScore;
          copingLevel = getCopingLevel copingScore;
          exhaustionLevel = getExhaustionLevel exhaustionScore;
          totalScore = jsSub (jsAdd sufficiencyScore copingScore) exhaustionScore;
          total = (if jsLt totalScore 15 then (Nyzkyi, class_low)
                   else if jsLe totalScore 30 then (Serednii, class_medium)
                   else (Vysokyi, class_high))
      in \<lparr>sufficiency =
            \<lparr>PersonalResourceCategory.name = [0x414, 0x43E, 0x441, 0x442, 0x430, 0x442, 0x43D, 0x456, 0x441, 0x442, 0x44C],
             PersonalResourceCategory.score = sufficiencyScore,
             PersonalResourceCategory.maxScore = 30,
             PersonalResourceCategory.level = fst sufficiencyLevel,
             PersonalResourceCategory.levelClass = snd sufficiencyLevel\<rparr>,
          copingStrategies =
            \<lparr>PersonalResourceCategory.name = [0x421, 0x442, 0x440, 0x430, 0x442, 0x435, 0x433, 0x456, 0x457, 0x20, 0x43F, 0x43E, 0x434, 0x43E, 0x43B, 0x430, 0x43D, 0x43D, 0x44F],
             PersonalResourceCategory.score = copingScore,
             PersonalResourceCategory.maxScore = 20,
             PersonalResourceCategory.level = fst copingLevel,
             PersonalResourceCategory.levelClass = snd copingLevel\<rparr>,
          emotionalExhaustion =
            \<lparr>PersonalResourceCategory.name = [0x415, 0x43C, 0x43E, 0x446, 0x456, 0x439, 0x43D, 0x430, 0x20, 0x441, 0x43F, 0x443, 0x441, 0x442, 0x43E, 0x448, 0x435, 0x43D, 0x456, 0x441, 0x442, 0x44C],
             PersonalResourceCategory.score = exhaustionScore,
             PersonalResourceCategory.maxScore = 15,
             PersonalResourceCategory.level = fst exhaustionLevel,
             PersonalResourceCategory.levelClass = snd exhaustionLevel\<rparr>,
          PersonalResourceResult.totalScore = totalScore,
          PersonalResourceResult.totalLevel = fst total,
          PersonalResourceResult.totalLevelClass = snd total\<rparr>)"

text \<open>
  \<open>calculateRyffResults\<close>. \<open>finalAnswer\<close> is the value a slot adds to the score, and
  \<open>getRyffCategoryLevel\<close> the three-way classification, which the source writes out three
  times (in \<open>calculateCategoryScore\<close>, for the total, and as the method of that name).
\<close>

definition finalAnswer :: "bool \<Rightarrow> number \<Rightarrow> number" where
  "finalAnswer isReversed rawAnswer = (if isReversed then jsSub (Some 7) rawAnswer else rawAnswer)"

definition ryffScore :: "int list \<Rightarrow> (nat \<times> bool) list \<Rightarrow> number" where
  "ryffScore answers qs =
     fold (\<lambda>q score. jsAdd score (finalAnswer (snd q) (answerAt answers (fst q)))) qs (Some 0)"

definition getRyffCategoryLevel :: "number \<Rightarrow> int \<Rightarrow> int \<Rightarrow> jsstring \<times> jsstring" where
  "getRyffCategoryLevel = (\<lambda>score lowThreshold highThreshold.
      if jsLt score lowThreshold then (Nyzkyi, class_low)
      else if jsGt score highThreshold then (Vysokyi, class_high)
      else (Serednii, class_medium))"

definition calculateCategoryScore :: "int list \<Rightarrow> RyffCategoryDefinition \<Rightarrow> RyffCategory" where
  "calculateCategoryScore answers categoryDef =
     (let score = ryffScore answers (RyffCategoryDefinition.questions categoryDef);
          lv = getRyffCategoryLevel score (lowThreshold categoryDef) (highThreshold categoryDef)
      in \<lparr>RyffCategory.name = RyffCategoryDefinition.name categoryDef,
          RyffCategory.score = score,
          RyffCategory.maxScore = 84,
          RyffCategory.level = fst lv,
          RyffCategory.levelClass = snd lv\<rparr>)"

definition calculateRyffResults :: "int list \<Rightarrow> RyffResult" where
  "calculateRyffResults answers =
     (let relationships = calculateCategoryScore answers ryffCategories_relationships;
          autonomy = calculateCategoryScore answers ryffCategories_autonomy;
          environment = calculateCategoryScore answers ryffCategories_environment;
          growth = calculateCategoryScore answers ryffCategories_growth;
          purpose = calculateCategoryScore answers ryffCategories_purpose;
          selfAcceptance = calculateCategoryScore answers ryffCategories_selfAcceptance;
          totalScore =
            jsAdd (jsAdd (jsAdd (jsAdd (jsAdd (RyffCategory.score relationships)
              (RyffCategory.score autonomy)) (RyffCategory.score environment))
              (RyffCategory.score growth)) (RyffCategory.score purpose))
              (RyffCategory.score selfAcceptance);
          total = getRyffCategoryLevel totalScore ryffTotalLowThreshold ryffTotalHighThreshold
      in \<lparr>relationships = relationships, autonomy = autonomy, environment = environment,
          growth = growth, purpose = purpose, selfAcceptance = selfAcceptance,
          RyffResult.totalScore = totalScore,
          RyffResult.totalLevel = fst total,
          RyffResult.totalLevelClass = snd total\<rparr>)"

section \<open>Reading the file\<close>

text \<open>
  \<open>parseCSVLine\<close>: one pass over the code units of the line with the fields found so far,
  the field being read and the quote state. The quote is \<open>0x22\<close>, the comma \<open>0x2C\<close>.
\<close>

fun parseCSVLoop :: "jsstring \<Rightarrow> jsstring list \<Rightarrow> jsstring \<Rightarrow> bool \<Rightarrow> jsstring list" where
  "parseCSVLoop [] result current inQuotes = result @ [trim current]"
| "parseCSVLoop (char # rest) result current inQuotes =
     (if char = 0x22 then parseCSVLoop rest result current (\<not> inQuotes)
      else if char = 0x2C \<and> \<not> inQuotes then parseCSVLoop rest (result @ [trim current]) [] inQuotes
      else parseCSVLoop rest result (current @ [char]) inQuotes)"

definition parseCSVLine :: "jsstring \<Rightarrow> jsstring list" where
  "parseCSVLine line = parseCSVLoop line [] [] False"

text \<open>\<open>content.split('\n')\<close>: the pieces between the line feeds \<open>0xA\<close>, at least one piece.\<close>

fun splitNewline :: "jsstring \<Rightarrow> jsstring list" where
  "splitNewline [] = [[]]"
| "splitNewline (c # s) =
     (if c = 0xA then [] # splitNewline s
      else (case splitNewline s of
              l # ls \<Rightarrow> (c # l) # ls
            | [] \<Rightarrow> [[c]]))"

text \<open>
  A respondent. The three averages of the first questionnaire (\<open>san\<close>) are floating-point
  values on which nothing below depends; they are not part of the model. The decoded
  answers of the first questionnaire are.
\<close>

record Respondent =
  timestamp :: jsstring
  email :: jsstring
  age :: jsstring
  sanAnswers :: "int list"
  shtepaAnswers :: "bool list"
  shtepa :: ShtepaResult
  basicPhAnswers :: "int list"
  basicPh :: BasicPhResult
  personalResourceAnswers :: "int list"
  personalResource :: PersonalResourceResult
  ryffAnswers :: "int list"
  ryff :: RyffResult

text \<open>
  The part of the component that loading a file reads and writes.
\<close>

record AppComponent =
  respondents :: "Respondent list"
  fileName :: jsstring
  isLoading :: bool
  errorMessage :: jsstring

definition minColumns :: nat where
  "minColumns = 3 + 30 + 67 + 36 + 13 + 84"

text \<open>
  The body of the loop over the data rows, from the row's columns to its respondent. It
  runs only for rows of at least \<open>minColumns\<close> columns, so every \<open>columns[k]\<close> it reads is a
  column of the row.
\<close>

definition processRow :: "(jsstring \<Rightarrow> jsstring) \<Rightarrow> jsstring list \<Rightarrow> Respondent" where
  "processRow toLowerCase columns =
     (let timestamp = columns ! 0;
          email = columns ! 1;
          age = columns ! 2;
          sanAnswers =
            map (\<lambda>i. let questionNum = i + 1;
                        rawValue = columns ! (3 + i);
                        isReversed = (questionNum \<in> set reversedQuestions)
                    in convertSanAnswer toLowerCase rawValue isReversed questionNum email) [0..<30];
          shtepaAnswers =
            map (\<lambda>i. let questionNum = i + 1;
                        rawValue = columns ! (33 + i)
                    in convertShtepaAnswer toLowerCase rawValue questionNum email) [0..<67];
          shtepa = calculateShtepaResults shtepaAnswers;
          basicPhAnswers =
            map (\<lambda>i. let questionNum = i + 1;
                        rawValue = columns ! (100 + i)
                    in convertBasicPhAnswer toLowerCase rawValue questionNum email) [0..<36];
          basicPh = calculateBasicPhResults basicPhAnswers;
          personalResourceAnswers =
            map (\<lambda>i. let questionNum = i + 1;
                        rawValue = columns ! (136 + i)
                    in convertPersonalResourceAnswer toLowerCase rawValue questionNum email) [0..<13];
          personalResource = calculatePersonalResourceResults personalResourceAnswers;
          ryffAnswers =
            map (\<lambda>i. let questionNum = i + 1;
                        rawValue = columns ! (149 + i)
                    in convertRyffAnswer toLowerCase rawValue questionNum email) [0..<84];
          ryff = calculateRyffResults ryffAnswers
      in \<lparr>timestamp = timestamp, email = email, age = age,
          sanAnswers = sanAnswers,
          shtepaAnswers = shtepaAnswers, shtepa = shtepa,
          basicPhAnswers = basicPhAnswers, basicPh = basicPh,
          personalResourceAnswers = personalResourceAnswers, personalResource = personalResource,
          ryffAnswers = ryffAnswers, ryff = ryff\<rparr>)"

text \<open>One turn of the loop: a row with too few columns is skipped (\<open>continue\<close>).\<close>

definition rowStep ::
  "(jsstring \<Rightarrow> jsstring) \<Rightarrow> jsstring \<Rightarrow> Respondent list \<Rightarrow> Respondent list" where
  "rowStep toLowerCase line rs =
     (let columns = parseCSVLine line in
      if length columns < minColumns then rs
      else rs @ [processRow toLowerCase columns])"

text \<open>
  \<open>parseAndTransformCSV\<close>, from the component before the call to the component after it.
  The two messages are \<open>'CSV file must have a header and at least one data row'\<close> and
  \<open>'No valid data rows found in CSV'\<close>.
\<close>

abbreviation msgNeedsHeaderAndRow :: jsstring where
  "msgNeedsHeaderAndRow \<equiv>
     [0x43, 0x53, 0x56, 0x20, 0x66, 0x69, 0x6C, 0x65, 0x20, 0x6D, 0x75, 0x73, 0x74, 0x20, 0x68, 0x61, 0x76, 0x65, 0x20, 0x61, 0x20, 0x68, 0x65, 0x61, 0x64, 0x65, 0x72, 0x20, 0x61, 0x6E, 0x64, 0x20, 0x61, 0x74, 0x20, 0x6C, 0x65, 0x61, 0x73, 0x74, 0x20, 0x6F, 0x6E, 0x65, 0x20, 0x64, 0x61, 0x74, 0x61, 0x20, 0x72, 0x6F, 0x77]"

abbreviation msgNoValidRows :: jsstring where
  "msgNoValidRows \<equiv>
     [0x4E, 0x6F, 0x20, 0x76, 0x61, 0x6C, 0x69, 0x64, 0x20, 0x64, 0x61, 0x74, 0x61, 0x20, 0x72, 0x6F, 0x77, 0x73, 0x20, 0x66, 0x6F, 0x75, 0x6E, 0x64, 0x20, 0x69, 0x6E, 0x20, 0x43, 0x53, 0x56]"

definition parseAndTransformCSV ::
  "(jsstring \<Rightarrow> jsstring) \<Rightarrow> jsstring \<Rightarrow> AppComponent \<Rightarrow> AppComponent" where
  "parseAndTransformCSV toLowerCase content this =
     (let lines = filter (\<lambda>line. trim line \<noteq> []) (splitNewline content) in
      if length lines < 2 then this\<lparr>errorMessage := msgNeedsHeaderAndRow\<rparr>
      else
        (let dataRows = drop 1 lines;
             this1 = this\<lparr>respondents := []\<rparr>;
             this2 = this1\<lparr>respondents := fold (rowStep toLowerCase) dataRows (respondents this1)\<rparr>
         in if length (respondents this2) = 0 then this2\<lparr>errorMessage := msgNoValidRows\<rparr>
            else this2))"

section \<open>Example inputs\<close>

text \<open>
  Concrete inputs on which the model is run below: a component as it is created; a file
  of a header line \<open>h\<close>, a row of two fields, a row of 233 empty fields and a row of one
  field; the Ryff answers that score 51 in the environment category and 315 in total; and
  the Shtepa answers that agree with the eight slots of the first category and disagree
  with the expected answer of every other question.
\<close>

definition newComponent :: AppComponent where
  "newComponent = \<lparr>respondents = [], fileName = [], isLoading = False, errorMessage = []\<rparr>"

definition exampleContent :: jsstring where
  "exampleContent = [0x68] @ 0xA # [0x78, 0x2C, 0x79] @ 0xA # replicate 232 0x2C @ 0xA # [0x7A]"

definition exampleRyffAnswers :: "int list" where
  "exampleRyffAnswers = [6, 3, 6, 3, 6, 6, 3, 6, 3, 6, 3, 6, 3, 5] @ replicate 70 3"

definition exampleShtepaAnswers :: "bool list" where
  "exampleShtepaAnswers =
    [False, True, True, False, False, False, True, True, False, True,
     True, False, True, False, True, True, True, True, True, False,
     False, False, True, True, True, True, True, False, False, False,
     False, False, True, False, False, False, False, False, False, False,
     False, True, True, True, True, True, True, True, True, True,
     False, False, False, False, True, False, True, False, True, False,
     False, True, True, True, False, True, False]"

section \<open>Properties\<close>

subsection \<open>Strings and the tokenizer\<close>

lemma filter_shorter_iff:
  "length (filter p xs) < length xs \<longleftrightarrow> (\<exists>x \<in> set xs. \<not> p x)"
proof (induction xs)
  case Nil
  show ?case by simp
next
  case (Cons x xs)
  have le: "length (filter p xs) \<le> length xs" by (rule length_filter_le)
  show ?case
  proof (cases "p x")
    case True
    with Cons show ?thesis by simp
  next
    case False
    with le show ?thesis by (simp add: less_Suc_eq_le)
  qed
qed

lemma trim_Nil: "trim [] = []"
  by (simp add: trim_def)

lemma trim_idem: "trim (trim s) = trim s"
proof -
  define t where "t = dropWhile isWhiteSpace s"
  define u where "u = dropWhile isWhiteSpace (rev t)"
  have front: "dropWhile isWhiteSpace (rev u) = rev u"
  proof (cases "u = []")
    case True
    then show ?thesis by simp
  next
    case False
    have t: "t \<noteq> []"
    proof
      assume "t = []"
      then have "u = []" by (simp add: u_def)
      with False show False by simp
    qed
    obtain ys where ys: "rev t = ys @ u"
      unfolding u_def by (metis takeWhile_dropWhile_id)
    have "last (rev t) = last u" using ys False by simp
    then have "hd (rev u) = hd t" using False t by (simp add: hd_rev last_rev)
    moreover have "\<not> isWhiteSpace (hd t)" using t unfolding t_def by (rule hd_dropWhile)
    ultimately have "\<not> isWhiteSpace (hd (rev u))" by simp
    then show ?thesis using False by (cases "rev u") simp_all
  qed
  have rear: "dropWhile isWhiteSpace u = u" unfolding u_def by (rule dropWhile_idem)
  have "trim s = rev u" by (simp add: trim_def u_def t_def)
  moreover have "trim (rev u) = rev u" by (simp add: trim_def front rear)
  ultimately show ?thesis by simp
qed

lemma trim_not_blank: "s \<noteq> [] \<Longrightarrow> \<not> isWhiteSpace (hd s) \<Longrightarrow> trim s \<noteq> []"
proof -
  assume s: "s \<noteq> []" and h: "\<not> isWhiteSpace (hd s)"
  have keep: "dropWhile isWhiteSpace s = s" using s h by (cases s) simp_all
  have "hd s \<in> set (rev s)" using s by simp
  then have "dropWhile isWhiteSpace (rev s) \<noteq> []"
    using h by (auto simp: dropWhile_eq_Nil_conv)
  then show ?thesis by (simp add: trim_def keep)
qed

lemma parseCSVLoop_trimmed:
  "(\<And>f. f \<in> set result \<Longrightarrow> trim f = f) \<Longrightarrow>
   f \<in> set (parseCSVLoop line result current inQuotes) \<Longrightarrow> trim f = f"
proof (induction line result current inQuotes rule: parseCSVLoop.induct)
  case (1 result current inQuotes)
  then show ?case by (auto simp: trim_idem)
next
  case (2 char rest result current inQuotes)
  show ?case
  proof (cases "char = 0x22")
    case True
    with 2 show ?thesis by simp
  next
    case quote: False
    show ?thesis
    proof (cases "char = 0x2C \<and> \<not> inQuotes")
      case True
      have inv: "\<And>g. g \<in> set (result @ [trim current]) \<Longrightarrow> trim g = g"
        using "2.prems"(1) by (auto simp: trim_idem)
      show ?thesis using "2.IH"(2) [OF quote True inv] "2.prems"(2) quote True by simp
    next
      case False
      show ?thesis using "2.IH"(3) [OF quote False "2.prems"(1)] "2.prems"(2) quote False by auto
    qed
  qed
qed

lemma parseCSVLine_fields_trimmed:
  "f \<in> set (parseCSVLine line) \<Longrightarrow> trim f = f"
  unfolding parseCSVLine_def by (rule parseCSVLoop_trimmed [where result = "[]"]) simp_all

lemma splitNewline_not_Nil: "splitNewline s \<noteq> []"
  by (induction s) (auto split: list.splits)

lemma splitNewline_single: "0xA \<notin> set s \<Longrightarrow> splitNewline s = [s]"
  by (induction s) auto

lemma splitNewline_line: "0xA \<notin> set s \<Longrightarrow> splitNewline (s @ 0xA # t) = s # splitNewline t"
  by (induction s) (auto split: list.splits simp: splitNewline_not_Nil)

lemma parseCSVLoop_commas:
  "parseCSVLoop (replicate n 0x2C) result [] False = result @ replicate (Suc n) []"
proof (induction n arbitrary: result)
  case 0
  show ?case by (simp add: trim_Nil)
next
  case (Suc n)
  show ?case using Suc [of "result @ [[]]"] by (simp add: trim_Nil replicate_app_Cons_same)
qed

subsection \<open>Sums of answers\<close>

lemma fold_jsAdd_in_range:
  "(\<And>q. q \<in> set qs \<Longrightarrow> 1 \<le> q \<and> q \<le> length answers) \<Longrightarrow>
   fold (\<lambda>qNum score. jsAdd score (answerAt answers qNum)) qs (Some a)
     = Some (a + sum_list (map (\<lambda>q. answers ! (q - 1)) qs))"
proof (induction qs arbitrary: a)
  case Nil
  show ?case by simp
next
  case (Cons q qs)
  have q: "1 \<le> q \<and> q \<le> length answers" using Cons.prems by simp
  have step: "jsAdd (Some a) (answerAt answers q) = Some (a + answers ! (q - 1))"
    using q by (simp add: jsAdd_def answerAt_def)
  have rest: "\<And>q'. q' \<in> set qs \<Longrightarrow> 1 \<le> q' \<and> q' \<le> length answers"
    using Cons.prems by simp
  show ?case using Cons.IH [OF rest] step by (simp add: add.assoc)
qed

lemma sumAnswers_in_range:
  "(\<And>q. q \<in> set qs \<Longrightarrow> 1 \<le> q \<and> q \<le> length answers) \<Longrightarrow>
   sumAnswers answers qs = Some (sum_list (map (\<lambda>q. answers ! (q - 1)) qs))"
  unfolding sumAnswers_def using fold_jsAdd_in_range [of qs answers 0] by simp

lemma ryffScore_snoc:
  "ryffScore answers (qs @ [q]) = jsAdd (ryffScore answers qs) (finalAnswer (snd q) (answerAt answers (fst q)))"
  by (simp add: ryffScore_def)

lemma fold_ryff_in_range:
  "(\<And>q. q \<in> set qs \<Longrightarrow> 1 \<le> fst q \<and> fst q \<le> length answers) \<Longrightarrow>
   fold (\<lambda>q score. jsAdd score (finalAnswer (snd q) (answerAt answers (fst q)))) qs (Some a)
     = Some (a + sum_list (map (\<lambda>q. if snd q then 7 - answers ! (fst q - 1)
                                        else answers ! (fst q - 1)) qs))"
proof (induction qs arbitrary: a)
  case Nil
  show ?case by simp
next
  case (Cons q qs)
  have q: "1 \<le> fst q \<and> fst q \<le> length answers" using Cons.prems by simp
  have step: "jsAdd (Some a) (finalAnswer (snd q) (answerAt answers (fst q)))
      = Some (a + (if snd q then 7 - answers ! (fst q - 1) else answers ! (fst q - 1)))"
    using q by (simp add: jsAdd_def jsSub_def finalAnswer_def answerAt_def)
  have rest: "\<And>q'. q' \<in> set qs \<Longrightarrow> 1 \<le> fst q' \<and> fst q' \<le> length answers"
    using Cons.prems by simp
  show ?case using Cons.IH [OF rest] step by (simp add: add.assoc)
qed

lemma ryffScore_in_range:
  "(\<And>q. q \<in> set qs \<Longrightarrow> 1 \<le> fst q \<and> fst q \<le> length answers) \<Longrightarrow>
   ryffScore answers qs
     = Some (sum_list (map (\<lambda>q. if snd q then 7 - answers ! (fst q - 1)
                                    else answers ! (fst q - 1)) qs))"
  unfolding ryffScore_def using fold_ryff_in_range [of qs answers 0] by simp

lemma ryff_questions_in_range:
  "c \<in> set [ryffCategories_relationships, ryffCategories_autonomy, ryffCategories_environment,
             ryffCategories_growth, ryffCategories_purpose, ryffCategories_selfAcceptance]
   \<Longrightarrow> q \<in> set (RyffCategoryDefinition.questions c) \<Longrightarrow> 1 \<le> fst q \<and> fst q \<le> 84"
  by (auto simp: ryffCategories_relationships_def ryffCategories_autonomy_def
      ryffCategories_environment_def ryffCategories_growth_def ryffCategories_purpose_def
      ryffCategories_selfAcceptance_def)

lemma ryff_category_score:
  assumes len: "length answers = 84"
    and mem: "c \<in> set [ryffCategories_relationships, ryffCategories_autonomy,
                ryffCategories_environment, ryffCategories_growth, ryffCategories_purpose,
                ryffCategories_selfAcceptance]"
  shows "RyffCategory.score (calculateCategoryScore answers c)
    = Some (sum_list (map (\<lambda>q. if snd q then 7 - answers ! (fst q - 1)
                                   else answers ! (fst q - 1))
              (RyffCategoryDefinition.questions c)))"
proof -
  have "ryffScore answers (RyffCategoryDefinition.questions c)
    = Some (sum_list (map (\<lambda>q. if snd q then 7 - answers ! (fst q - 1)
                                   else answers ! (fst q - 1))
              (RyffCategoryDefinition.questions c)))"
    by (rule ryffScore_in_range) (use ryff_questions_in_range [OF mem] len in simp)
  then show ?thesis by (simp add: calculateCategoryScore_def Let_def)
qed

lemma ryff_results_fields:
  "relationships (calculateRyffResults answers) = calculateCategoryScore answers ryffCategories_relationships"
  "autonomy (calculateRyffResults answers) = calculateCategoryScore answers ryffCategories_autonomy"
  "environment (calculateRyffResults answers) = calculateCategoryScore answers ryffCategories_environment"
  "growth (calculateRyffResults answers) = calculateCategoryScore answers ryffCategories_growth"
  "purpose (calculateRyffResults answers) = calculateCategoryScore answers ryffCategories_purpose"
  "selfAcceptance (calculateRyffResults answers) = calculateCategoryScore answers ryffCategories_selfAcceptance"
  "RyffResult.totalScore (calculateRyffResults answers)
     = jsAdd (jsAdd (jsAdd (jsAdd (jsAdd
         (RyffCategory.score (calculateCategoryScore answers ryffCategories_relationships))
         (RyffCategory.score (calculateCategoryScore answers ryffCategories_autonomy)))
         (RyffCategory.score (calculateCategoryScore answers ryffCategories_environment)))
         (RyffCategory.score (calculateCategoryScore answers ryffCategories_growth)))
         (RyffCategory.score (calculateCategoryScore answers ryffCategories_purpose)))
         (RyffCategory.score (calculateCategoryScore answers ryffCategories_selfAcceptance))"
  by (simp_all add: calculateRyffResults_def Let_def)

lemma exampleRyff_sums:
  "length exampleRyffAnswers = 84"
  "sum_list (map (\<lambda>q. if snd q then 7 - exampleRyffAnswers ! (fst q - 1)
                         else exampleRyffAnswers ! (fst q - 1))
      (RyffCategoryDefinition.questions ryffCategories_environment)) = 51"
  by (simp_all add: exampleRyffAnswers_def ryffCategories_environment_def nth_append)

lemma personalResource_scores:
  assumes len: "length answers = 13"
  shows "sumAnswers answers personalResourceSufficiencyQuestions
           = Some (answers ! 0 + answers ! 1 + answers ! 3 + answers ! 4 + answers ! 8 + answers ! 9)"
    and "sumAnswers answers personalResourceCopingQuestions
           = Some (answers ! 2 + answers ! 5 + answers ! 7 + answers ! 11)"
    and "sumAnswers answers personalResourceExhaustionQuestions
           = Some (answers ! 6 + answers ! 10 + answers ! 12)"
  using len
  by (simp_all add: sumAnswers_def personalResourceSufficiencyQuestions_def
      personalResourceCopingQuestions_def personalResourceExhaustionQuestions_def
      answerAt_def jsAdd_def)

lemma sum_list_le_bound:
  fixes xs :: "int list"
  shows "(\<And>x. x \<in> set xs \<Longrightarrow> x \<le> k) \<Longrightarrow> sum_list xs \<le> k * int (length xs)"
proof (induction xs)
  case Nil
  show ?case by simp
next
  case (Cons x xs)
  have "x \<le> k" using Cons.prems by simp
  moreover have "sum_list xs \<le> k * int (length xs)" using Cons by simp
  ultimately show ?case by (simp add: algebra_simps)
qed

lemma basicPh_questions:
  "concat (map BasicPhCategoryDefinition.questions basicPhCategories)
     = [1, 7, 13, 19, 25, 31, 2, 8, 14, 20, 26, 32, 3, 9, 15, 21, 27, 33,
        4, 10, 16, 22, 28, 34, 5, 11, 17, 23, 29, 35, 6, 12, 18, 24, 30, 36]"
  by (simp add: basicPhCategories_def)

lemma basicPh_sorted_questions:
  "sort (concat (map BasicPhCategoryDefinition.questions basicPhCategories)) = [1..<37]"
  unfolding basicPh_questions by code_simp

lemma basicPh_partition:
  "mset (concat (map BasicPhCategoryDefinition.questions basicPhCategories)) = mset [1..<37]"
  using basicPh_sorted_questions mset_sort
  by (metis (no_types))

lemma fold_basicPhStep:
  "(\<And>c q. c \<in> set cs \<Longrightarrow> q \<in> set (BasicPhCategoryDefinition.questions c)
       \<Longrightarrow> 1 \<le> q \<and> q \<le> length answers) \<Longrightarrow>
   snd (fold (basicPhStep answers) cs (acc, Some a))
     = Some (a + sum_list (map (\<lambda>q. answers ! (q - 1))
                (concat (map BasicPhCategoryDefinition.questions cs))))"
proof (induction cs arbitrary: acc a)
  case Nil
  show ?case by simp
next
  case (Cons c cs)
  have c: "sumAnswers answers (BasicPhCategoryDefinition.questions c)
      = Some (sum_list (map (\<lambda>q. answers ! (q - 1)) (BasicPhCategoryDefinition.questions c)))"
    by (rule sumAnswers_in_range) (use Cons.prems in auto)
  have rest: "\<And>c' q. c' \<in> set cs \<Longrightarrow> q \<in> set (BasicPhCategoryDefinition.questions c')
       \<Longrightarrow> 1 \<le> q \<and> q \<le> length answers"
    using Cons.prems by auto
  show ?case
    using Cons.IH [OF rest] c
    by (simp add: basicPhStep_def Let_def jsAdd_def add.assoc)
qed

lemma basicPh_total_sum:
  assumes len: "length answers = 36"
  shows "BasicPhResult.totalScore (calculateBasicPhResults answers) = Some (sum_list answers)"
proof -
  let ?qs = "concat (map BasicPhCategoryDefinition.questions basicPhCategories)"
  have range: "\<And>c q. c \<in> set basicPhCategories \<Longrightarrow> q \<in> set (BasicPhCategoryDefinition.questions c)
       \<Longrightarrow> 1 \<le> q \<and> q \<le> length answers"
  proof -
    fix c q
    assume "c \<in> set basicPhCategories" and "q \<in> set (BasicPhCategoryDefinition.questions c)"
    then have "q \<in> set ?qs" by auto
    then have "q \<in># mset ?qs" by simp
    then have "q \<in> set [1..<37]" unfolding basicPh_partition by simp
    then show "1 \<le> q \<and> q \<le> length answers" using len by simp
  qed
  have "BasicPhResult.totalScore (calculateBasicPhResults answers)
      = Some (sum_list (map (\<lambda>q. answers ! (q - 1)) ?qs))"
    unfolding calculateBasicPhResults_def Let_def
    using fold_basicPhStep [where cs = basicPhCategories and acc = "[]" and a = 0, OF range] by simp
  also have "sum_list (map (\<lambda>q. answers ! (q - 1)) ?qs)
      = sum_mset (image_mset (\<lambda>q. answers ! (q - 1)) (mset ?qs))"
    by (simp add: sum_mset_sum_list [symmetric])
  also have "\<dots> = sum_list (map (\<lambda>q. answers ! (q - 1)) [1..<37])"
    unfolding basicPh_partition by (simp add: sum_mset_sum_list [symmetric])
  also have "map (\<lambda>q. answers ! (q - 1)) [1..<37] = map (\<lambda>i. answers ! i) [0..<36]"
  proof -
    have "[1..<37] = map Suc [0..<36]" by (simp add: map_Suc_upt)
    then show ?thesis by (simp add: comp_def)
  qed
  also have "map (\<lambda>i. answers ! i) [0..<36] = answers"
    using len map_nth [of answers] by simp
  finally show ?thesis .
qed

subsection \<open>Levels\<close>

lemma ryff_thresholds:
  "c \<in> set [ryffCategories_relationships, ryffCategories_autonomy, ryffCategories_environment,
             ryffCategories_growth, ryffCategories_purpose, ryffCategories_selfAcceptance]
   \<Longrightarrow> lowThreshold c \<le> highThreshold c"
  by (auto simp: ryffCategories_relationships_def ryffCategories_autonomy_def
      ryffCategories_environment_def ryffCategories_growth_def ryffCategories_purpose_def
      ryffCategories_selfAcceptance_def)

lemma ryff_category_level:
  assumes "RyffCategory.score (calculateCategoryScore answers c) = Some s"
  shows "(RyffCategory.level (calculateCategoryScore answers c),
          RyffCategory.levelClass (calculateCategoryScore answers c))
         = (if s < lowThreshold c then (Nyzkyi, class_low)
            else if s > highThreshold c then (Vysokyi, class_high)
            else (Serednii, class_medium))"
  using assms
  by (simp add: calculateCategoryScore_def Let_def getRyffCategoryLevel_def jsLt_def jsGt_def)

lemma ryff_total_level:
  assumes "RyffResult.totalScore (calculateRyffResults answers) = Some s"
  shows "(RyffResult.totalLevel (calculateRyffResults answers),
          RyffResult.totalLevelClass (calculateRyffResults answers))
         = (if s < 315 then (Nyzkyi, class_low)
            else if s > 413 then (Vysokyi, class_high)
            else (Serednii, class_medium))"
  using assms
  by (simp add: calculateRyffResults_def Let_def getRyffCategoryLevel_def jsLt_def jsGt_def
      ryffTotalLowThreshold_def ryffTotalHighThreshold_def)

lemma personalResource_levels:
  fixes answers :: "int list"
  defines "r \<equiv> calculatePersonalResourceResults answers"
  shows "PersonalResourceCategory.score (sufficiency r) = Some s \<Longrightarrow>
           (PersonalResourceCategory.level (sufficiency r),
            PersonalResourceCategory.levelClass (sufficiency r))
           = (if s < 13 then (Nyzkyi, class_low) else if s > 21 then (Vysokyi, class_high)
              else (Serednii, class_medium))"
    and "PersonalResourceCategory.score (copingStrategies r) = Some s \<Longrightarrow>
           (PersonalResourceCategory.level (copingStrategies r),
            PersonalResourceCategory.levelClass (copingStrategies r))
           = (if s < 13 then (Nyzkyi, class_low) else if s > 18 then (Vysokyi, class_high)
              else (Serednii, class_medium))"
    and "PersonalResourceCategory.score (emotionalExhaustion r) = Some s \<Longrightarrow>
           PersonalResourceCategory.level (emotionalExhaustion r)
           = (if s < 8 then Nyzkyi else if s > 12 then Vysokyi else Serednii)"
    and "PersonalResourceResult.totalScore r = Some s \<Longrightarrow>
           (PersonalResourceResult.totalLevel r, PersonalResourceResult.totalLevelClass r)
           = (if s < 15 then (Nyzkyi, class_low) else if s > 30 then (Vysokyi, class_high)
              else (Serednii, class_medium))"
  unfolding r_def calculatePersonalResourceResults_def Let_def
    getSufficiencyLevel_def getCopingLevel_def getExhaustionLevel_def
  by (auto simp: jsLt_def jsLe_def)

lemma three_way_rule:
  fixes s low high :: int
  assumes "low \<le> high"
    and "(lv, cl) = (if s < low then (Nyzkyi, class_low)
                     else if s > high then (Vysokyi, class_high)
                     else (Serednii, class_medium))"
  shows "(s = low \<longrightarrow> lv = Serednii \<and> cl = class_medium)
    \<and> (s = high \<longrightarrow> lv = Serednii \<and> cl = class_medium)
    \<and> ((lv = Nyzkyi) = (s < low)) \<and> ((cl = class_low) = (s < low))
    \<and> ((lv = Vysokyi) = (s > high)) \<and> ((cl = class_high) = (s > high))"
  using assms by (auto split: if_splits)

lemma shtepa_totalScore:
  "ShtepaResult.totalScore (calculateShtepaResults a) = snd (fold (shtepaStep a) shtepaCategories ([], 0))"
  by (simp add: calculateShtepaResults_def Let_def)

lemma shtepa_not_diagnosed:
  "ShtepaResult.totalScore (calculateShtepaResults a) \<le> 56 \<Longrightarrow>
   ShtepaResult.totalLevel (calculateShtepaResults a) = NeDiahnostuietsia
   \<and> ShtepaResult.totalLevelClass (calculateShtepaResults a) = class_not_diagnosed"
  unfolding shtepa_totalScore by (simp add: calculateShtepaResults_def Let_def)

text \<open>
  The first Shtepa category. Questions 11, 12, 22 and 55 are slots of the first category
  and, with the same expected answer, of six other categories, so no answers agree with
  the eight slots of the first category and disagree with every slot of every other
  category. Answers that agree with the first category and disagree with every slot that
  is not on one of its questions score 8, 0, 0, 2, 1, 0, 0, 1, 1, 1, 1, 0, 0, 0, with total 15.
\<close>

lemma shtepa_scenario_scores:
  assumes first: "list_all (\<lambda>q. answerAt answers (fst q) = Some (snd q))
                    (CategoryDefinition.questions (hd shtepaCategories))"
    and others: "list_all (\<lambda>c. list_all (\<lambda>q.
                     fst q \<in> set (map fst (CategoryDefinition.questions (hd shtepaCategories)))
                     \<or> answerAt answers (fst q) \<noteq> Some (snd q))
                   (CategoryDefinition.questions c)) (tl shtepaCategories)"
  shows "map ShtepaCategory.score (ShtepaResult.categories (calculateShtepaResults answers))
           = [8, 0, 0, 2, 1, 0, 0, 1, 1, 1, 1, 0, 0, 0]
         \<and> ShtepaResult.totalScore (calculateShtepaResults answers) = 15"
  using first others
  by (simp add: shtepaCategories_def calculateShtepaResults_def shtepaStep_def shtepaScore_def Let_def)

lemma shtepa_scenario_impossible:
  "\<not> (list_all (\<lambda>q. answerAt answers (fst q) = Some (snd q))
          (CategoryDefinition.questions (hd shtepaCategories))
      \<and> list_all (\<lambda>c. list_all (\<lambda>q. answerAt answers (fst q) \<noteq> Some (snd q))
                   (CategoryDefinition.questions c)) (tl shtepaCategories))"
  by (simp add: shtepaCategories_def)

lemma shtepa_nearest_scenario:
  "(12, False) \<in> set (CategoryDefinition.questions (shtepaCategories ! 0))
   \<and> (12, False) \<in> set (CategoryDefinition.questions (shtepaCategories ! 3))
   \<and> list_all (\<lambda>q. answerAt exampleShtepaAnswers (fst q) = Some (snd q))
     (CategoryDefinition.questions (hd shtepaCategories))
   \<and> list_all (\<lambda>c. list_all (\<lambda>q.
         fst q \<in> set (map fst (CategoryDefinition.questions (hd shtepaCategories)))
         \<or> answerAt exampleShtepaAnswers (fst q) \<noteq> Some (snd q))
       (CategoryDefinition.questions c)) (tl shtepaCategories)
   \<and> map ShtepaCategory.score (ShtepaResult.categories (calculateShtepaResults exampleShtepaAnswers))
       = [8, 0, 0, 2, 1, 0, 0, 1, 1, 1, 1, 0, 0, 0]
   \<and> ShtepaResult.totalScore (calculateShtepaResults exampleShtepaAnswers) = 15
   \<and> ShtepaResult.totalScore (calculateShtepaResults exampleShtepaAnswers) \<noteq> 8"
  by (simp add: shtepaCategories_def exampleShtepaAnswers_def answerAt_def
      calculateShtepaResults_def shtepaStep_def shtepaScore_def Let_def)

subsection \<open>Rows\<close>

lemma fold_rowStep:
  "fold (rowStep toLowerCase) rows rs
     = rs @ map (processRow toLowerCase)
              (filter (\<lambda>columns. minColumns \<le> length columns) (map parseCSVLine rows))"
proof (induction rows arbitrary: rs)
  case Nil
  show ?case by simp
next
  case (Cons row rows)
  show ?case
  proof (cases "length (parseCSVLine row) < minColumns")
    case True
    then show ?thesis using Cons.IH [of rs] by (simp add: rowStep_def)
  next
    case False
    then show ?thesis
      using Cons.IH [of "rs @ [processRow toLowerCase (parseCSVLine row)]"]
      by (simp add: rowStep_def)
  qed
qed

lemma exampleContent_lines:
  "filter (\<lambda>line. trim line \<noteq> []) (splitNewline exampleContent)
     = [[0x68], [0x78, 0x2C, 0x79], replicate 232 0x2C, [0x7A]]"
proof -
  have split: "splitNewline exampleContent = [[0x68], [0x78, 0x2C, 0x79], replicate 232 0x2C, [0x7A]]"
    unfolding exampleContent_def
    by (simp add: splitNewline_line splitNewline_single)
  have commas: "trim (replicate 232 0x2C) \<noteq> []"
    by (rule trim_not_blank) (simp_all add: isWhiteSpace_def)
  show ?thesis unfolding split using commas
    by (simp add: trim_def isWhiteSpace_def)
qed

lemma exampleContent_columns:
  "length (parseCSVLine [0x78, 0x2C, 0x79]) = 2"
  "length (parseCSVLine (replicate 232 0x2C)) = 233"
  "length (parseCSVLine [0x7A]) = 1"
  by (simp_all add: parseCSVLine_def parseCSVLoop_commas)

section \<open>The claims\<close>

text \<open>
  C1. Every field the tokenizer delivers is already trimmed, so its trimmed text is the
  field text itself. Take a field text whose trimmed form does not begin with \<open>'3 ('\<close> or
  \<open>'3('\<close>. Let the clean value be the text with every non-digit removed, and say there is a
  marker when the text holds a character that is not a digit. Then a clean value \<open>'0'\<close>
  decodes to 4; \<open>'1'\<close> decodes to 3 without a marker and 5 with one, and the other way
  round for a reversed question; \<open>'2'\<close> decodes to 2 without a marker and 6 with one, and
  the other way round for a reversed question; every other text, a bare \<open>'3'\<close> among them,
  decodes to 4. Whatever the text is, \<open>convertSanAnswer\<close> returns an integer from 1 to 7.
\<close>

theorem convertSanAnswer_table:
  fixes toLowerCase :: "jsstring \<Rightarrow> jsstring" and email :: jsstring and line :: jsstring
  shows
  "(rawValue \<in> set (parseCSVLine line) \<longrightarrow> trim rawValue = rawValue)
   \<and> (\<not> startsWith (trim rawValue) [0x33, 0x20, 0x28] \<and> \<not> startsWith (trim rawValue) [0x33, 0x28] \<longrightarrow>
      convertSanAnswer toLowerCase rawValue isReversed questionNum email =
        (let cleanValue = filter isDigit (trim rawValue);
             marker = (\<exists>c \<in> set (trim rawValue). \<not> isDigit c)
         in if cleanValue = [0x30] then 4
            else if cleanValue = [0x31] \<and> \<not> marker then (if isReversed then 5 else 3)
            else if cleanValue = [0x31] \<and> marker then (if isReversed then 3 else 5)
            else if cleanValue = [0x32] \<and> \<not> marker then (if isReversed then 6 else 2)
            else if cleanValue = [0x32] \<and> marker then (if isReversed then 2 else 6)
            else 4))
   \<and> 1 \<le> convertSanAnswer toLowerCase rawValue isReversed questionNum email
   \<and> convertSanAnswer toLowerCase rawValue isReversed questionNum email \<le> 7"
proof -
  let ?n = "trim rawValue"
  have field: "rawValue \<in> set (parseCSVLine line) \<longrightarrow> trim rawValue = rawValue"
    by (simp add: parseCSVLine_fields_trimmed)
  have marker: "length (filter isDigit ?n) < length ?n \<longleftrightarrow> (\<exists>c \<in> set ?n. \<not> isDigit c)"
    by (rule filter_shorter_iff)
  have table: "\<not> startsWith ?n [0x33, 0x20, 0x28] \<and> \<not> startsWith ?n [0x33, 0x28] \<longrightarrow>
      convertSanAnswer toLowerCase rawValue isReversed questionNum email =
        (let cleanValue = filter isDigit ?n;
             marker = (\<exists>c \<in> set ?n. \<not> isDigit c)
         in if cleanValue = [0x30] then 4
            else if cleanValue = [0x31] \<and> \<not> marker then (if isReversed then 5 else 3)
            else if cleanValue = [0x31] \<and> marker then (if isReversed then 3 else 5)
            else if cleanValue = [0x32] \<and> \<not> marker then (if isReversed then 6 else 2)
            else if cleanValue = [0x32] \<and> marker then (if isReversed then 2 else 6)
            else 4)"
    unfolding convertSanAnswer_def stripNonDigits_def Let_def marker [symmetric]
    by auto
  have range: "1 \<le> convertSanAnswer toLowerCase rawValue isReversed questionNum email
      \<and> convertSanAnswer toLowerCase rawValue isReversed questionNum email \<le> 7"
    unfolding convertSanAnswer_def Let_def by simp
  from field table range show ?thesis by blast
qed

text \<open>
  The decoder on the fields of the line \<open>2\<close>, Hangul filler, comma, \<open>1\<close>, and on the bare
  texts \<open>2\<close>, \<open>1\<close> with the filler (reversed question) and \<open>3\<close>.
\<close>

theorem convertSanAnswer_table_witness:
  "[0x32, 0x3164] \<in> set (parseCSVLine [0x32, 0x3164, 0x2C, 0x31])
   \<and> convertSanAnswer lowerUkr [0x32, 0x3164] False 1 [] = 6
   \<and> convertSanAnswer lowerUkr [0x32] False 1 [] = 2
   \<and> convertSanAnswer lowerUkr [0x31, 0x3164] True 3 [] = 3
   \<and> convertSanAnswer lowerUkr [0x33] False 1 [] = 4"
  using convertSanAnswer_table [where rawValue = "[0x32, 0x3164]" and toLowerCase = lowerUkr
      and isReversed = False and questionNum = 1 and email = "[]"
      and line = "[0x32, 0x3164, 0x2C, 0x31]"]
    convertSanAnswer_table [where rawValue = "[0x32]" and toLowerCase = lowerUkr
      and isReversed = False and questionNum = 1 and email = "[]"]
    convertSanAnswer_table [where rawValue = "[0x31, 0x3164]" and toLowerCase = lowerUkr
      and isReversed = True and questionNum = 3 and email = "[]"]
    convertSanAnswer_table [where rawValue = "[0x33]" and toLowerCase = lowerUkr
      and isReversed = False and questionNum = 1 and email = "[]"]
  by (simp add: parseCSVLine_def trim_def isWhiteSpace_def startsWith_def isDigit_def)

text \<open>
  C2. In the Ryff aggregation, a slot whose answer is \<open>v\<close> from 1 to 6 adds \<open>7 - v\<close> to the
  category score when it is flagged reversed and \<open>v\<close> itself when it is not. For
  eighty-four answers, the score that \<open>calculateCategoryScore\<close> gives each of the six
  categories, and that \<open>calculateRyffResults\<close> stores in the field of that category, is
  the sum over the slots of the category of \<open>7 - answer\<close> for a reversed slot and of the
  answer for any other; the total is the sum of the six. The reversal stays within 1 to
  6, exchanges 1 with 6, 2 with 5 and 3 with 4, and applied twice gives the answer back.
\<close>

theorem ryff_reversal:
  fixes answers :: "int list" and v s :: int and c :: RyffCategoryDefinition
  defines "slotSum \<equiv> (\<lambda>qs. sum_list (map (\<lambda>q. if snd q then 7 - answers ! (fst q - 1)
                                                    else answers ! (fst q - 1)) qs))"
  defines "r \<equiv> calculateRyffResults answers"
  shows
  "(1 \<le> v \<and> v \<le> 6 \<and> answerAt answers num = Some v \<and> ryffScore answers qs = Some s \<longrightarrow>
      ryffScore answers (qs @ [(num, True)]) = Some (s + (7 - v))
      \<and> ryffScore answers (qs @ [(num, False)]) = Some (s + v)
      \<and> finalAnswer True (Some v) = Some (7 - v)
      \<and> finalAnswer False (Some v) = Some v
      \<and> 1 \<le> 7 - v \<and> 7 - v \<le> 6
      \<and> finalAnswer True (finalAnswer True (Some v)) = Some v)
   \<and> ((\<forall>q \<in> set qs. 1 \<le> fst q \<and> fst q \<le> length answers) \<longrightarrow>
        ryffScore answers qs = Some (slotSum qs))
   \<and> (length answers = 84 \<longrightarrow>
        (c \<in> set [ryffCategories_relationships, ryffCategories_autonomy,
                   ryffCategories_environment, ryffCategories_growth, ryffCategories_purpose,
                   ryffCategories_selfAcceptance] \<longrightarrow>
           RyffCategory.score (calculateCategoryScore answers c)
             = Some (slotSum (RyffCategoryDefinition.questions c)))
        \<and> RyffCategory.score (relationships r)
             = Some (slotSum (RyffCategoryDefinition.questions ryffCategories_relationships))
        \<and> RyffCategory.score (autonomy r)
             = Some (slotSum (RyffCategoryDefinition.questions ryffCategories_autonomy))
        \<and> RyffCategory.score (environment r)
             = Some (slotSum (RyffCategoryDefinition.questions ryffCategories_environment))
        \<and> RyffCategory.score (growth r)
             = Some (slotSum (RyffCategoryDefinition.questions ryffCategories_growth))
        \<and> RyffCategory.score (purpose r)
             = Some (slotSum (RyffCategoryDefinition.questions ryffCategories_purpose))
        \<and> RyffCategory.score (selfAcceptance r)
             = Some (slotSum (RyffCategoryDefinition.questions ryffCategories_selfAcceptance))
        \<and> RyffResult.totalScore r
             = Some (slotSum (RyffCategoryDefinition.questions ryffCategories_relationships)
                   + slotSum (RyffCategoryDefinition.questions ryffCategories_autonomy)
                   + slotSum (RyffCategoryDefinition.questions ryffCategories_environment)
                   + slotSum (RyffCategoryDefinition.questions ryffCategories_growth)
                   + slotSum (RyffCategoryDefinition.questions ryffCategories_purpose)
                   + slotSum (RyffCategoryDefinition.questions ryffCategories_selfAcceptance)))
   \<and> finalAnswer True (Some 1) = Some 6 \<and> finalAnswer True (Some 6) = Some 1
   \<and> finalAnswer True (Some 2) = Some 5 \<and> finalAnswer True (Some 5) = Some 2
   \<and> finalAnswer True (Some 3) = Some 4 \<and> finalAnswer True (Some 4) = Some 3"
proof -
  have slot: "ryffScore answers (qs @ [(num, True)]) = Some (s + (7 - v))
      \<and> ryffScore answers (qs @ [(num, False)]) = Some (s + v)"
    if "answerAt answers num = Some v" and "ryffScore answers qs = Some s"
    using that by (simp add: ryffScore_snoc finalAnswer_def jsAdd_def jsSub_def)
  have rev: "finalAnswer True (Some v) = Some (7 - v) \<and> finalAnswer False (Some v) = Some v
      \<and> finalAnswer True (finalAnswer True (Some v)) = Some v"
    by (simp add: finalAnswer_def jsSub_def)
  have range: "1 \<le> 7 - v \<and> 7 - v \<le> 6" if "1 \<le> v" and "v \<le> 6"
    using that by simp
  have whole: "ryffScore answers qs = Some (slotSum qs)"
    if "\<forall>q \<in> set qs. 1 \<le> fst q \<and> fst q \<le> length answers"
    unfolding slotSum_def by (rule ryffScore_in_range) (use that in blast)
  have cat: "RyffCategory.score (calculateCategoryScore answers c')
             = Some (slotSum (RyffCategoryDefinition.questions c'))"
    if "length answers = 84"
      and "c' \<in> set [ryffCategories_relationships, ryffCategories_autonomy,
                   ryffCategories_environment, ryffCategories_growth, ryffCategories_purpose,
                   ryffCategories_selfAcceptance]" for c'
    unfolding slotSum_def using that by (rule ryff_category_score)
  have fields: "RyffCategory.score (relationships r)
             = Some (slotSum (RyffCategoryDefinition.questions ryffCategories_relationships))
        \<and> RyffCategory.score (autonomy r)
             = Some (slotSum (RyffCategoryDefinition.questions ryffCategories_autonomy))
        \<and> RyffCategory.score (environment r)
             = Some (slotSum (RyffCategoryDefinition.questions ryffCategories_environment))
        \<and> RyffCategory.score (growth r)
             = Some (slotSum (RyffCategoryDefinition.questions ryffCategories_growth))
        \<and> RyffCategory.score (purpose r)
             = Some (slotSum (RyffCategoryDefinition.questions ryffCategories_purpose))
        \<and> RyffCategory.score (selfAcceptance r)
             = Some (slotSum (RyffCategoryDefinition.questions ryffCategories_selfAcceptance))
        \<and> RyffResult.totalScore r
             = Some (slotSum (RyffCategoryDefinition.questions ryffCategories_relationships)
                   + slotSum (RyffCategoryDefinition.questions ryffCategories_autonomy)
                   + slotSum (RyffCategoryDefinition.questions ryffCategories_environment)
                   + slotSum (RyffCategoryDefinition.questions ryffCategories_growth)
                   + slotSum (RyffCategoryDefinition.questions ryffCategories_purpose)
                   + slotSum (RyffCategoryDefinition.questions ryffCategories_selfAcceptance))"
    if len: "length answers = 84"
    unfolding r_def ryff_results_fields
    by (simp add: cat [OF len] jsAdd_def)
  have pairs: "finalAnswer True (Some 1) = Some 6 \<and> finalAnswer True (Some 6) = Some 1
   \<and> finalAnswer True (Some 2) = Some 5 \<and> finalAnswer True (Some 5) = Some 2
   \<and> finalAnswer True (Some 3) = Some 4 \<and> finalAnswer True (Some 4) = Some 3"
    by (simp add: finalAnswer_def jsSub_def)
  from slot rev range whole cat [of c] fields pairs show ?thesis by blast
qed

theorem ryff_reversal_witness:
  "ryffScore [4, 2] [(1, False), (2, True)] = Some 9
   \<and> ryffScore [4, 2] [(1, False), (2, False)] = Some 6
   \<and> ryffScore [4, 2] [(1, False)] = Some 4
   \<and> RyffCategory.score (calculateCategoryScore exampleRyffAnswers ryffCategories_environment) = Some 51
   \<and> RyffCategory.score (environment (calculateRyffResults exampleRyffAnswers)) = Some 51"
proof -
  have h: "(1::int) \<le> 2 \<and> (2::int) \<le> 6 \<and> answerAt [4, 2] 2 = Some (2::int)
      \<and> ryffScore [4, 2] [(1, False)] = Some 4"
    by (simp add: answerAt_def ryffScore_def finalAnswer_def jsAdd_def)
  have r: "\<forall>q \<in> set [(1::nat, False)]. 1 \<le> fst q \<and> fst q \<le> length [4, 2 :: int]"
    by simp
  have env: "ryffCategories_environment \<in> set [ryffCategories_relationships, ryffCategories_autonomy,
                   ryffCategories_environment, ryffCategories_growth, ryffCategories_purpose,
                   ryffCategories_selfAcceptance]"
    by simp
  show ?thesis
    using h r ryff_reversal [where v = 2 and answers = "[4, 2]" and num = 2
        and qs = "[(1, False)]" and s = 4]
      env exampleRyff_sums
      ryff_reversal [where answers = exampleRyffAnswers and c = ryffCategories_environment]
    by simp
qed

text \<open>
  C3. For thirteen Personal Resources answers, the three category scores are the sums of
  the answers to questions 1, 2, 4, 5, 9, 10 (sufficiency), 3, 6, 8, 12 (coping) and
  7, 11, 13 (exhaustion), and the total is sufficiency plus coping minus exhaustion. With
  sufficiency 25, coping 10 and exhaustion 5 the total is 30 and its level is
  \<open>Serednii\<close>, as for every total from 15 to 30.
\<close>

theorem personalResource_total:
  fixes answers :: "int list"
  defines "r \<equiv> calculatePersonalResourceResults answers"
  defines "S \<equiv> answers ! 0 + answers ! 1 + answers ! 3 + answers ! 4 + answers ! 8 + answers ! 9"
  defines "C \<equiv> answers ! 2 + answers ! 5 + answers ! 7 + answers ! 11"
  defines "E \<equiv> answers ! 6 + answers ! 10 + answers ! 12"
  assumes len: "length answers = 13"
  shows "PersonalResourceCategory.score (sufficiency r) = Some S
    \<and> PersonalResourceCategory.score (copingStrategies r) = Some C
    \<and> PersonalResourceCategory.score (emotionalExhaustion r) = Some E
    \<and> PersonalResourceResult.totalScore r = Some (S + C - E)
    \<and> (S = 25 \<and> C = 10 \<and> E = 5 \<longrightarrow>
         PersonalResourceResult.totalScore r = Some 30
         \<and> PersonalResourceResult.totalLevel r = Serednii
         \<and> PersonalResourceResult.totalLevelClass r = class_medium)
    \<and> (15 \<le> S + C - E \<and> S + C - E \<le> 30 \<longrightarrow>
         PersonalResourceResult.totalLevel r = Serednii
         \<and> PersonalResourceResult.totalLevelClass r = class_medium)"
  using personalResource_scores [OF len]
  unfolding r_def S_def C_def E_def calculatePersonalResourceResults_def Let_def
  by (simp add: jsAdd_def jsSub_def jsLt_def jsLe_def)

theorem personalResource_total_witness:
  "PersonalResourceResult.totalScore
     (calculatePersonalResourceResults [5, 5, 3, 5, 5, 3, 2, 2, 4, 1, 2, 2, 1]) = Some 30
   \<and> PersonalResourceResult.totalLevel
     (calculatePersonalResourceResults [5, 5, 3, 5, 5, 3, 2, 2, 4, 1, 2, 2, 1]) = Serednii"
proof -
  have len: "length [5, 5, 3, 5, 5, 3, 2, 2, 4, 1, 2, 2, 1 :: int] = 13" by simp
  show ?thesis
    using personalResource_total [OF len] by simp
qed

text \<open>
  C5. For each of the six Ryff categories, the Ryff total (315, 413), the sufficiency
  (13, 21) and coping (13, 18) categories and the Personal Resources total (15, 30): a
  score equal to the low bound, or to the high bound, has level \<open>Serednii\<close> and class
  \<open>medium\<close>; the level is \<open>Nyz'kyi\<close> (class \<open>low\<close>) exactly for scores below the low
  bound and \<open>Vysokyi\<close> (class \<open>high\<close>) exactly for scores above the high bound. For the
  exhaustion category (8, 12) the same holds of the level label.
\<close>

theorem level_boundaries:
  fixes ryff :: "int list" and pr :: "int list" and s :: int and c :: RyffCategoryDefinition
  defines "rule \<equiv> (\<lambda>low high lv cl.
      (s = low \<longrightarrow> lv = Serednii \<and> cl = class_medium)
    \<and> (s = high \<longrightarrow> lv = Serednii \<and> cl = class_medium)
    \<and> ((lv = Nyzkyi) = (s < low)) \<and> ((cl = class_low) = (s < low))
    \<and> ((lv = Vysokyi) = (s > high)) \<and> ((cl = class_high) = (s > high)))"
  defines "cat \<equiv> calculateCategoryScore ryff c"
  defines "ry \<equiv> calculateRyffResults ryff"
  defines "p \<equiv> calculatePersonalResourceResults pr"
  shows "(c \<in> set [ryffCategories_relationships, ryffCategories_autonomy,
                    ryffCategories_environment, ryffCategories_growth,
                    ryffCategories_purpose, ryffCategories_selfAcceptance]
          \<and> RyffCategory.score cat = Some s \<longrightarrow>
            rule (lowThreshold c) (highThreshold c) (RyffCategory.level cat) (RyffCategory.levelClass cat))
    \<and> (RyffResult.totalScore ry = Some s \<longrightarrow>
          rule 315 413 (RyffResult.totalLevel ry) (RyffResult.totalLevelClass ry))
    \<and> (PersonalResourceCategory.score (sufficiency p) = Some s \<longrightarrow>
          rule 13 21 (PersonalResourceCategory.level (sufficiency p))
            (PersonalResourceCategory.levelClass (sufficiency p)))
    \<and> (PersonalResourceCategory.score (copingStrategies p) = Some s \<longrightarrow>
          rule 13 18 (PersonalResourceCategory.level (copingStrategies p))
            (PersonalResourceCategory.levelClass (copingStrategies p)))
    \<and> (PersonalResourceCategory.score (emotionalExhaustion p) = Some s \<longrightarrow>
          (s = 8 \<longrightarrow> PersonalResourceCategory.level (emotionalExhaustion p) = Serednii)
          \<and> (s = 12 \<longrightarrow> PersonalResourceCategory.level (emotionalExhaustion p) = Serednii)
          \<and> ((PersonalResourceCategory.level (emotionalExhaustion p) = Nyzkyi) = (s < 8))
          \<and> ((PersonalResourceCategory.level (emotionalExhaustion p) = Vysokyi) = (s > 12)))
    \<and> (PersonalResourceResult.totalScore p = Some s \<longrightarrow>
          rule 15 30 (PersonalResourceResult.totalLevel p) (PersonalResourceResult.totalLevelClass p))"
proof -
  have category: "rule (lowThreshold c) (highThreshold c) (RyffCategory.level cat) (RyffCategory.levelClass cat)"
    if mem: "c \<in> set [ryffCategories_relationships, ryffCategories_autonomy,
                    ryffCategories_environment, ryffCategories_growth,
                    ryffCategories_purpose, ryffCategories_selfAcceptance]"
      and sc: "RyffCategory.score cat = Some s"
  proof -
    have pair: "(RyffCategory.level cat, RyffCategory.levelClass cat)
        = (if s < lowThreshold c then (Nyzkyi, class_low)
           else if s > highThreshold c then (Vysokyi, class_high)
           else (Serednii, class_medium))"
      using sc unfolding cat_def by (rule ryff_category_level)
    show ?thesis unfolding rule_def
      by (rule three_way_rule [OF ryff_thresholds [OF mem] pair])
  qed
  have total: "rule 315 413 (RyffResult.totalLevel ry) (RyffResult.totalLevelClass ry)"
    if sc: "RyffResult.totalScore ry = Some s"
  proof -
    have pair: "(RyffResult.totalLevel ry, RyffResult.totalLevelClass ry)
        = (if s < 315 then (Nyzkyi, class_low) else if s > 413 then (Vysokyi, class_high)
           else (Serednii, class_medium))"
      using sc unfolding ry_def by (rule ryff_total_level)
    have le: "(315::int) \<le> 413" by simp
    show ?thesis unfolding rule_def by (rule three_way_rule [OF le pair])
  qed
  have suff: "rule 13 21 (PersonalResourceCategory.level (sufficiency p))
            (PersonalResourceCategory.levelClass (sufficiency p))"
    if sc: "PersonalResourceCategory.score (sufficiency p) = Some s"
  proof -
    have pair: "(PersonalResourceCategory.level (sufficiency p),
                 PersonalResourceCategory.levelClass (sufficiency p))
        = (if s < 13 then (Nyzkyi, class_low) else if s > 21 then (Vysokyi, class_high)
           else (Serednii, class_medium))"
      using sc unfolding p_def by (rule personalResource_levels(1))
    have le: "(13::int) \<le> 21" by simp
    show ?thesis unfolding rule_def by (rule three_way_rule [OF le pair])
  qed
  have cop: "rule 13 18 (PersonalResourceCategory.level (copingStrategies p))
            (PersonalResourceCategory.levelClass (copingStrategies p))"
    if sc: "PersonalResourceCategory.score (copingStrategies p) = Some s"
  proof -
    have pair: "(PersonalResourceCategory.level (copingStrategies p),
                 PersonalResourceCategory.levelClass (copingStrategies p))
        = (if s < 13 then (Nyzkyi, class_low) else if s > 18 then (Vysokyi, class_high)
           else (Serednii, class_medium))"
      using sc unfolding p_def by (rule personalResource_levels(2))
    have le: "(13::int) \<le> 18" by simp
    show ?thesis unfolding rule_def by (rule three_way_rule [OF le pair])
  qed
  have exh: "(s = 8 \<longrightarrow> PersonalResourceCategory.level (emotionalExhaustion p) = Serednii)
          \<and> (s = 12 \<longrightarrow> PersonalResourceCategory.level (emotionalExhaustion p) = Serednii)
          \<and> ((PersonalResourceCategory.level (emotionalExhaustion p) = Nyzkyi) = (s < 8))
          \<and> ((PersonalResourceCategory.level (emotionalExhaustion p) = Vysokyi) = (s > 12))"
    if sc: "PersonalResourceCategory.score (emotionalExhaustion p) = Some s"
  proof -
    have lv: "PersonalResourceCategory.level (emotionalExhaustion p)
        = (if s < 8 then Nyzkyi else if s > 12 then Vysokyi else Serednii)"
      using sc unfolding p_def by (rule personalResource_levels(3))
    show ?thesis unfolding lv by simp
  qed
  have ptotal: "rule 15 30 (PersonalResourceResult.totalLevel p) (PersonalResourceResult.totalLevelClass p)"
    if sc: "PersonalResourceResult.totalScore p = Some s"
  proof -
    have pair: "(PersonalResourceResult.totalLevel p, PersonalResourceResult.totalLevelClass p)
        = (if s < 15 then (Nyzkyi, class_low) else if s > 30 then (Vysokyi, class_high)
           else (Serednii, class_medium))"
      using sc unfolding p_def by (rule personalResource_levels(4))
    have le: "(15::int) \<le> 30" by simp
    show ?thesis unfolding rule_def by (rule three_way_rule [OF le pair])
  qed
  from category total suff cop exh ptotal show ?thesis by blast
qed

theorem level_boundaries_witness:
  "RyffCategory.level (calculateCategoryScore exampleRyffAnswers ryffCategories_environment) = Serednii
   \<and> RyffResult.totalLevelClass (calculateRyffResults exampleRyffAnswers) = class_medium
   \<and> PersonalResourceCategory.level (sufficiency
        (calculatePersonalResourceResults [3, 2, 5, 2, 2, 5, 3, 4, 2, 2, 3, 4, 2])) = Serednii
   \<and> PersonalResourceCategory.level (copingStrategies
        (calculatePersonalResourceResults [3, 2, 5, 2, 2, 5, 3, 4, 2, 2, 3, 4, 2])) = Serednii
   \<and> PersonalResourceCategory.level (emotionalExhaustion
        (calculatePersonalResourceResults [3, 2, 5, 2, 2, 5, 3, 4, 2, 2, 3, 4, 2])) = Serednii
   \<and> PersonalResourceResult.totalLevel
        (calculatePersonalResourceResults [5, 5, 3, 5, 5, 3, 2, 2, 4, 1, 2, 2, 1]) = Serednii"
proof -
  have env: "ryffCategories_environment \<in> set [ryffCategories_relationships, ryffCategories_autonomy,
                    ryffCategories_environment, ryffCategories_growth,
                    ryffCategories_purpose, ryffCategories_selfAcceptance]"
    by simp
  have low: "lowThreshold ryffCategories_environment = 51"
    by (simp add: ryffCategories_environment_def)
  have s1: "RyffCategory.score (calculateCategoryScore exampleRyffAnswers ryffCategories_environment) = Some 51"
    by (simp add: exampleRyffAnswers_def calculateCategoryScore_def ryffCategories_environment_def
        ryffScore_def finalAnswer_def answerAt_def jsAdd_def jsSub_def nth_append Let_def)
  have s2: "RyffResult.totalScore (calculateRyffResults exampleRyffAnswers) = Some 315"
    by (simp add: exampleRyffAnswers_def calculateRyffResults_def calculateCategoryScore_def
        ryffCategories_relationships_def ryffCategories_autonomy_def
        ryffCategories_environment_def ryffCategories_growth_def ryffCategories_purpose_def
        ryffCategories_selfAcceptance_def
        ryffScore_def finalAnswer_def answerAt_def jsAdd_def jsSub_def nth_append Let_def)
  have s3: "PersonalResourceCategory.score (sufficiency
        (calculatePersonalResourceResults [3, 2, 5, 2, 2, 5, 3, 4, 2, 2, 3, 4, 2])) = Some 13"
    and s4: "PersonalResourceCategory.score (copingStrategies
        (calculatePersonalResourceResults [3, 2, 5, 2, 2, 5, 3, 4, 2, 2, 3, 4, 2])) = Some 18"
    and s5: "PersonalResourceCategory.score (emotionalExhaustion
        (calculatePersonalResourceResults [3, 2, 5, 2, 2, 5, 3, 4, 2, 2, 3, 4, 2])) = Some 8"
    and s6: "PersonalResourceResult.totalScore
        (calculatePersonalResourceResults [5, 5, 3, 5, 5, 3, 2, 2, 4, 1, 2, 2, 1]) = Some 30"
    by (simp_all add: calculatePersonalResourceResults_def Let_def sumAnswers_def
        personalResourceSufficiencyQuestions_def personalResourceCopingQuestions_def
        personalResourceExhaustionQuestions_def answerAt_def jsAdd_def jsSub_def)
  show ?thesis
    using level_boundaries [where c = ryffCategories_environment and ryff = exampleRyffAnswers
        and s = 51] env low s1
      level_boundaries [where ryff = exampleRyffAnswers and s = 315] s2
      level_boundaries [where pr = "[3, 2, 5, 2, 2, 5, 3, 4, 2, 2, 3, 4, 2]" and s = 13] s3
      level_boundaries [where pr = "[3, 2, 5, 2, 2, 5, 3, 4, 2, 2, 3, 4, 2]" and s = 18] s4
      level_boundaries [where pr = "[3, 2, 5, 2, 2, 5, 3, 4, 2, 2, 3, 4, 2]" and s = 8] s5
      level_boundaries [where pr = "[5, 5, 3, 5, 5, 3, 2, 2, 4, 1, 2, 2, 1]" and s = 30] s6
    by simp
qed

text \<open>
  C6. The required number of fields is 233. A data row adds one respondent, at the end
  of the list, when its tokenized field count is at least 233, and adds nothing
  otherwise. After a file of at least two non-blank lines is loaded, the respondents are
  exactly those of the data rows with at least 233 fields, in the order of the rows: a
  short row is left out and the rows after it are still processed.
\<close>

theorem rows_accepted:
  fixes toLowerCase :: "jsstring \<Rightarrow> jsstring" and this :: AppComponent and content :: jsstring
  defines "lines \<equiv> filter (\<lambda>line. trim line \<noteq> []) (splitNewline content)"
  shows "minColumns = 233
    \<and> rowStep toLowerCase line rs
        = (if 233 \<le> length (parseCSVLine line)
           then rs @ [processRow toLowerCase (parseCSVLine line)] else rs)
    \<and> (2 \<le> length lines \<longrightarrow>
         respondents (parseAndTransformCSV toLowerCase content this)
           = map (processRow toLowerCase)
               (filter (\<lambda>columns. 233 \<le> length columns) (map parseCSVLine (drop 1 lines))))"
proof -
  have m: "minColumns = 233" by (simp add: minColumns_def)
  have step: "rowStep toLowerCase line rs
        = (if 233 \<le> length (parseCSVLine line)
           then rs @ [processRow toLowerCase (parseCSVLine line)] else rs)"
    by (simp add: rowStep_def m Let_def not_less)
  have load: "respondents (parseAndTransformCSV toLowerCase content this)
           = map (processRow toLowerCase)
               (filter (\<lambda>columns. 233 \<le> length columns) (map parseCSVLine (drop 1 lines)))"
    if "2 \<le> length lines"
    using that unfolding parseAndTransformCSV_def lines_def Let_def
    by (simp add: fold_rowStep m not_less)
  from m step load show ?thesis by blast
qed

theorem rows_accepted_witness:
  "respondents (parseAndTransformCSV lowerUkr exampleContent newComponent)
     = [processRow lowerUkr (parseCSVLine (replicate 232 0x2C))]"
  using rows_accepted [where content = exampleContent and toLowerCase = lowerUkr
      and this = newComponent]
  by (simp add: exampleContent_lines exampleContent_columns)

text \<open>
  C7. As amended: loading a content of fewer than two non-blank lines sets the message
  \<open>'CSV file must have a header and at least one data row'\<close> and changes nothing else, so no
  respondent is produced and the list of respondents stays as it was. The message
  \<open>'No valid data rows found in CSV'\<close> belongs to the other case: at least two non-blank
  lines, none of the data rows with 233 fields; then the list of respondents is empty.
\<close>

theorem short_file:
  fixes toLowerCase :: "jsstring \<Rightarrow> jsstring" and this :: AppComponent and content :: jsstring
  defines "lines \<equiv> filter (\<lambda>line. trim line \<noteq> []) (splitNewline content)"
  defines "after \<equiv> parseAndTransformCSV toLowerCase content this"
  shows "(length lines < 2 \<longrightarrow>
           errorMessage after = msgNeedsHeaderAndRow
           \<and> respondents after = respondents this
           \<and> after = this\<lparr>errorMessage := msgNeedsHeaderAndRow\<rparr>)
    \<and> (2 \<le> length lines
         \<and> filter (\<lambda>columns. 233 \<le> length columns) (map parseCSVLine (drop 1 lines)) = [] \<longrightarrow>
           errorMessage after = msgNoValidRows \<and> respondents after = [])"
  unfolding after_def lines_def parseAndTransformCSV_def Let_def
  by (simp add: fold_rowStep minColumns_def not_less)

text \<open>
  A header line \<open>h\<close> alone, on a component as it is created: the message is not
  \<open>'No valid data rows found in CSV'\<close>.
\<close>

theorem short_file_counterexample:
  "errorMessage (parseAndTransformCSV lowerUkr [0x68]
      \<lparr>respondents = [], fileName = [], isLoading = False, errorMessage = []\<rparr>)
     = msgNeedsHeaderAndRow
   \<and> errorMessage (parseAndTransformCSV lowerUkr [0x68]
      \<lparr>respondents = [], fileName = [], isLoading = False, errorMessage = []\<rparr>)
     \<noteq> msgNoValidRows"
  by (simp add: parseAndTransformCSV_def trim_def isWhiteSpace_def)

text \<open>
  The two cases on a fresh component: the content \<open>h\<close>, and the content \<open>h\<close>, line feed,
  \<open>x,y\<close>.
\<close>

theorem short_file_witness:
  "parseAndTransformCSV lowerUkr [0x68] newComponent
     = newComponent\<lparr>errorMessage := msgNeedsHeaderAndRow\<rparr>
   \<and> respondents (parseAndTransformCSV lowerUkr [0x68] newComponent) = []
   \<and> errorMessage (parseAndTransformCSV lowerUkr [0x68, 0xA, 0x78, 0x2C, 0x79] newComponent)
       = msgNoValidRows"
  using short_file [where content = "[0x68]" and toLowerCase = lowerUkr and this = newComponent]
    short_file [where content = "[0x68, 0xA, 0x78, 0x2C, 0x79]" and toLowerCase = lowerUkr
      and this = newComponent]
  by (simp add: trim_def isWhiteSpace_def parseCSVLine_def newComponent_def)

text \<open>
  C8. In the keyword fallback of the Basic Ph decoder, a normalized text that is none of
  the seven full answers, contains \<open>maizhe zavzhdy\<close> and contains none of \<open>nikoly\<close>,
  \<open>ridko\<close>, \<open>inodi\<close>, \<open>periodychno\<close>, \<open>chasto\<close> decodes to 5, not to 6, although
  it contains \<open>zavzhdy\<close> as well.
\<close>

theorem basicPh_almost_always:
  fixes toLowerCase :: "jsstring \<Rightarrow> jsstring" and email :: jsstring and rawValue :: jsstring
  defines "normalized \<equiv> toLowerCase (trim rawValue)"
  shows "normalized \<notin> set (map fst answerMap)
    \<and> includesStr normalized [0x43C, 0x430, 0x439, 0x436, 0x435, 0x20, 0x437, 0x430, 0x432, 0x436, 0x434, 0x438]
    \<and> \<not> includesStr normalized [0x43D, 0x456, 0x43A, 0x43E, 0x43B, 0x438]
    \<and> \<not> includesStr normalized [0x440, 0x456, 0x434, 0x43A, 0x43E]
    \<and> \<not> includesStr normalized [0x456, 0x43D, 0x43E, 0x434, 0x456]
    \<and> \<not> includesStr normalized [0x43F, 0x435, 0x440, 0x456, 0x43E, 0x434, 0x438, 0x447, 0x43D, 0x43E]
    \<and> \<not> includesStr normalized [0x447, 0x430, 0x441, 0x442, 0x43E]
    \<longrightarrow> convertBasicPhAnswer toLowerCase rawValue questionNum email = 5
        \<and> convertBasicPhAnswer toLowerCase rawValue questionNum email \<noteq> 6"
proof -
  have "map_of answerMap normalized = None" if "normalized \<notin> set (map fst answerMap)"
    using that by (simp add: map_of_eq_None_iff)
  then show ?thesis
    unfolding convertBasicPhAnswer_def normalized_def Let_def by auto
qed

text \<open>The text \<open>Maizhe zavzhdy\<close>, which contains the keyword of value 6 too.\<close>

theorem basicPh_almost_always_witness:
  "includesStr (lowerUkr (trim [0x41C, 0x430, 0x439, 0x436, 0x435, 0x20, 0x437, 0x430, 0x432, 0x436, 0x434, 0x438])) [0x437, 0x430, 0x432, 0x436, 0x434, 0x438]
   \<and> convertBasicPhAnswer lowerUkr [0x41C, 0x430, 0x439, 0x436, 0x435, 0x20, 0x437, 0x430, 0x432, 0x436, 0x434, 0x438] 1 [] = 5"
  using basicPh_almost_always [where rawValue = "[0x41C, 0x430, 0x439, 0x436, 0x435, 0x20, 0x437, 0x430, 0x432, 0x436, 0x434, 0x438]"
      and toLowerCase = lowerUkr and questionNum = 1 and email = "[]"]
  by (simp add: answerMap_def lowerUkr_def lowerUnit_def trim_def isWhiteSpace_def startsWith_def)

text \<open>
  C9. For thirteen Personal Resources answers, the exhaustion score is the sum of the
  answers to questions 7, 11 and 13. Below 8 its level is \<open>Nyz'kyi\<close> and its class
  \<open>high\<close>; from 8 to 12 its level is \<open>Serednii\<close> and its class \<open>medium\<close>; above 12 its
  level is \<open>Vysokyi\<close> and its class \<open>low\<close>.
\<close>

theorem exhaustion_inverted:
  fixes answers :: "int list"
  defines "r \<equiv> emotionalExhaustion (calculatePersonalResourceResults answers)"
  defines "E \<equiv> answers ! 6 + answers ! 10 + answers ! 12"
  assumes len: "length answers = 13"
  shows "PersonalResourceCategory.score r = Some E
    \<and> (E < 8 \<longrightarrow> PersonalResourceCategory.level r = Nyzkyi
                 \<and> PersonalResourceCategory.levelClass r = class_high)
    \<and> (8 \<le> E \<and> E \<le> 12 \<longrightarrow> PersonalResourceCategory.level r = Serednii
                 \<and> PersonalResourceCategory.levelClass r = class_medium)
    \<and> (E > 12 \<longrightarrow> PersonalResourceCategory.level r = Vysokyi
                 \<and> PersonalResourceCategory.levelClass r = class_low)"
  using personalResource_scores(3) [OF len]
  unfolding r_def E_def calculatePersonalResourceResults_def Let_def getExhaustionLevel_def
  by (simp add: jsLt_def jsLe_def)

theorem exhaustion_inverted_witness:
  "PersonalResourceCategory.levelClass (emotionalExhaustion
     (calculatePersonalResourceResults [5, 5, 3, 5, 5, 3, 2, 2, 4, 1, 2, 2, 1])) = class_high
   \<and> PersonalResourceCategory.levelClass (emotionalExhaustion
     (calculatePersonalResourceResults [5, 5, 3, 5, 5, 3, 5, 2, 4, 1, 5, 2, 5])) = class_low
   \<and> PersonalResourceCategory.level (emotionalExhaustion
     (calculatePersonalResourceResults [5, 5, 3, 5, 5, 3, 3, 2, 4, 1, 3, 2, 3])) = Serednii"
proof -
  have l1: "length [5, 5, 3, 5, 5, 3, 2, 2, 4, 1, 2, 2, 1 :: int] = 13" by simp
  have l2: "length [5, 5, 3, 5, 5, 3, 5, 2, 4, 1, 5, 2, 5 :: int] = 13" by simp
  have l3: "length [5, 5, 3, 5, 5, 3, 3, 2, 4, 1, 3, 2, 3 :: int] = 13" by simp
  show ?thesis
    using exhaustion_inverted [OF l1] exhaustion_inverted [OF l2] exhaustion_inverted [OF l3]
    by simp
qed

text \<open>
  C10. The question lists of the six Basic Ph categories, put together and sorted, are
  the numbers 1 to 36, each once. For thirty-six answers the total score is the sum of
  all the answers; it is at most 216 when no answer exceeds 6, and 216 when every answer
  is 6.
\<close>

theorem basicPh_total:
  "sort (concat (map BasicPhCategoryDefinition.questions basicPhCategories)) = [1..<37]
   \<and> (length answers = 36 \<longrightarrow>
        BasicPhResult.totalScore (calculateBasicPhResults answers) = Some (sum_list answers))
   \<and> (length answers = 36 \<and> (\<forall>a \<in> set answers. a \<le> 6) \<longrightarrow>
        BasicPhResult.totalScore (calculateBasicPhResults answers) = Some (sum_list answers)
        \<and> sum_list answers \<le> 216)
   \<and> BasicPhResult.totalScore (calculateBasicPhResults (replicate 36 6)) = Some 216"
proof -
  have bound: "sum_list answers \<le> 216" if "length answers = 36" and "\<forall>a \<in> set answers. a \<le> 6"
    using sum_list_le_bound [of answers 6] that by simp
  have all6: "BasicPhResult.totalScore (calculateBasicPhResults (replicate 36 6)) = Some 216"
    using basicPh_total_sum [of "replicate 36 6"] by (simp add: sum_list_replicate)
  show ?thesis
    using basicPh_sorted_questions basicPh_total_sum [of answers] bound all6 by blast
qed

theorem basicPh_total_witness:
  "BasicPhResult.totalScore (calculateBasicPhResults
     [0, 1, 2, 3, 4, 5, 6, 0, 1, 2, 3, 4, 5, 6, 0, 1, 2, 3, 4, 5, 6, 0, 1, 2, 3, 4, 5, 6,
      0, 1, 2, 3, 4, 5, 6, 0]) = Some 105"
  using basicPh_total [of "[0, 1, 2, 3, 4, 5, 6, 0, 1, 2, 3, 4, 5, 6, 0, 1, 2, 3, 4, 5, 6,
      0, 1, 2, 3, 4, 5, 6, 0, 1, 2, 3, 4, 5, 6, 0]"]
  by simp


end
